theory Spec2Isabelle
  imports Complex_Main "HOL-Library.Multiset" "HOL-Library.Log_Nat"
begin

section \<open>Basic data\<close>

text \<open>
  The C++ type \<open>Real\<close> is modelled by the mathematical reals: every statement below is
  about exact arithmetic, without rounding, infinities or NaN, except in the sections
  that say that they compute in double precision. The type \<open>size_t\<close> of
  particle indices is \<open>nat\<close>, and \<open>int\<close> stands for the C++ \<open>int\<close> of cell indices
  under the assumption that no signed overflow happens. A \<open>StdLargeVec\<close> is a list;
  indexing it is \<open>!\<close>, writing a slot is list update, and every theorem that depends on
  an index being in range says so. A C++ member \<open>name_\<close> is written \<open>name_'\<close>, since
  a name may not end in an underscore here.
\<close>

text \<open>
  Modelled from the spec: the macros \<open>SMIN\<close> and \<open>SMAX\<close> are not among the sources. The
  spec reads the loop bounds built from them as clamping the scanned range to
  \<open>[0, number_of_cells - 1]\<close>, so they are the smaller and the larger of two values.
\<close>

definition SMIN :: "'a::linorder \<Rightarrow> 'a \<Rightarrow> 'a" where
  "SMIN a b = (if a \<le> b then a else b)"

definition SMAX :: "'a::linorder \<Rightarrow> 'a \<Rightarrow> 'a" where
  "SMAX a b = (if a \<ge> b then a else b)"

type_synonym Vecd = "real \<times> real \<times> real"

definition vec_minus :: "Vecd \<Rightarrow> Vecd \<Rightarrow> Vecd" where
  "vec_minus a b = (case (a, b) of ((a0, a1, a2), (b0, b1, b2)) \<Rightarrow> (a0 - b0, a1 - b1, a2 - b2))"

definition vec_plus :: "Vecd \<Rightarrow> Vecd \<Rightarrow> Vecd" where
  "vec_plus a b = (case (a, b) of ((a0, a1, a2), (b0, b1, b2)) \<Rightarrow> (a0 + b0, a1 + b1, a2 + b2))"

definition vec_scale :: "real \<Rightarrow> Vecd \<Rightarrow> Vecd" where
  "vec_scale c a = (case a of (a0, a1, a2) \<Rightarrow> (c * a0, c * a1, c * a2))"

definition vec_norm :: "Vecd \<Rightarrow> real" where
  "vec_norm a = (case a of (a0, a1, a2) \<Rightarrow> sqrt (a0 * a0 + a1 * a1 + a2 * a2))"

definition vec_zero :: Vecd where
  "vec_zero = (0, 0, 0)"

text \<open>
  A Neighborhood as the kernels read it: \<open>current_size_\<close> counts the valid records, and
  record \<open>n\<close> is spread over slot \<open>n\<close> of the five arrays.
\<close>

record Neighborhood =
  current_size_' :: nat
  j_' :: "nat list"
  W_ij_' :: "real list"
  dW_ijV_j_' :: "real list"
  r_ij_' :: "real list"
  e_ij_' :: "Vecd list"

type_synonym ParticleConfiguration = "Neighborhood list"

section \<open>Cell linked list and neighbor search\<close>

text \<open>
  The mesh of cells of the three-dimensional build: its lower bound, the cell width, the
  number of cells on each axis, and the list of data stored in each cell. The array
  \<open>cell_data_lists_[l][m][q]\<close> is a function of the cell index; the element type of a
  cell's list is the type parameter.
\<close>

record 'ld CellLinkedList =
  mesh_lower_bound_' :: Vecd
  grid_spacing_' :: real
  number_of_cells_' :: "nat \<times> nat \<times> nat"
  cell_data_lists_' :: "int \<times> int \<times> int \<Rightarrow> 'ld list"

text \<open>
  Modelled from the spec: \<open>CellIndexFromPosition\<close> is declared in a file that is not
  among the sources. The spec: it computes \<open>floor((pos - domain_lower_bound) / cell_size)\<close>
  per axis, and out-of-domain positions are clamped to valid cell bounds.
\<close>

definition cell_axis_index :: "real \<Rightarrow> real \<Rightarrow> nat \<Rightarrow> real \<Rightarrow> nat" where
  "cell_axis_index lower spacing n x = nat (SMAX 0 (SMIN \<lfloor>(x - lower) / spacing\<rfloor> (int n - 1)))"

definition CellIndexFromPosition :: "'ld CellLinkedList \<Rightarrow> Vecd \<Rightarrow> nat \<times> nat \<times> nat" where
  "CellIndexFromPosition cll position =
     (case (mesh_lower_bound_' cll, number_of_cells_' cll, position) of
        ((lo0, lo1, lo2), (n0, n1, n2), (x0, x1, x2)) \<Rightarrow>
          (cell_axis_index lo0 (grid_spacing_' cll) n0 x0,
           cell_axis_index lo1 (grid_spacing_' cll) n1 x1,
           cell_axis_index lo2 (grid_spacing_' cll) n2 x2))"

text \<open>
  The range of a loop \<open>for (int l = SMAX(i - search_depth, 0);
  l <= SMIN(i + search_depth, int(number_of_cells_[0]) - 1); ++l)\<close>, in the order in which
  the loop visits it.
\<close>

definition cell_range :: "int \<Rightarrow> int \<Rightarrow> nat \<Rightarrow> int list" where
  "cell_range i search_depth n = [SMAX (i - search_depth) 0 .. SMIN (i + search_depth) (int n - 1)]"

text \<open>The cells that the three nested loops of the search visit, in their order.\<close>

definition searched_cells :: "int \<Rightarrow> nat \<times> nat \<times> nat \<Rightarrow> nat \<times> nat \<times> nat \<Rightarrow> (int \<times> int \<times> int) list" where
  "searched_cells search_depth number_of_cells target_cell_index =
     (case (number_of_cells, target_cell_index) of
        ((n0, n1, n2), (ti, tj, tk)) \<Rightarrow>
          (let i = int ti; j = int tj; k = int tk
           in [(l, m, q). l \<leftarrow> cell_range i search_depth n0,
                          m \<leftarrow> cell_range j search_depth n1,
                          q \<leftarrow> cell_range k search_depth n2]))"

text \<open>
  The range of particles a search runs over: \<open>getParticleIndex(num)\<close> for
  \<open>num < SizeOfLoopRange()\<close>, and the positions of the particles it belongs to.
\<close>

record DynamicsRange =
  particle_index :: "nat list"
  base_particles_pos_' :: "Vecd list"

text \<open>
  \<open>CellLinkedList::searchNeighborsByParticles\<close>. The \<open>parallel_for\<close> over the range is
  run in the order of the range; each pass reads the frozen cell lists and writes the
  Neighborhood of its own particle only.
\<close>

definition searchNeighborsByParticles ::
  "'ld CellLinkedList \<Rightarrow> DynamicsRange \<Rightarrow> ParticleConfiguration \<Rightarrow> (nat \<Rightarrow> int) \<Rightarrow>
   (Neighborhood \<Rightarrow> Vecd \<Rightarrow> nat \<Rightarrow> 'ld \<Rightarrow> Neighborhood) \<Rightarrow> ParticleConfiguration" where
  "searchNeighborsByParticles cll dynamics_range particle_configuration get_search_depth
       get_neighbor_relation =
     (let pos = base_particles_pos_' dynamics_range
      in fold (\<lambda>index_i configuration.
           let search_depth = get_search_depth index_i;
               target_cell_index = CellIndexFromPosition cll (pos ! index_i);
               neighborhood =
                 fold (\<lambda>cell. fold (\<lambda>list_data nb.
                           get_neighbor_relation nb (pos ! index_i) index_i list_data)
                         (cell_data_lists_' cll cell))
                   (searched_cells search_depth (number_of_cells_' cll) target_cell_index)
                   (configuration ! index_i)
           in configuration[index_i := neighborhood])
         (particle_index dynamics_range) particle_configuration)"

text \<open>
  Modelled from the spec: \<open>updateCellLists\<close> is defined in a file that is not among the
  sources. The spec: it clears all cell particle-lists, then for each particle inserts its
  index into the cell its current position maps to.
\<close>

definition cell_of_position :: "'ld CellLinkedList \<Rightarrow> Vecd \<Rightarrow> int \<times> int \<times> int" where
  "cell_of_position cll position =
     (case CellIndexFromPosition cll position of (ti, tj, tk) \<Rightarrow> (int ti, int tj, int tk))"

definition insert_into_cell :: "Vecd list \<Rightarrow> nat \<Rightarrow> nat CellLinkedList \<Rightarrow> nat CellLinkedList" where
  "insert_into_cell pos index_i cll =
     (let cell = cell_of_position cll (pos ! index_i)
      in cll\<lparr>cell_data_lists_' := (cell_data_lists_' cll)(cell := cell_data_lists_' cll cell @ [index_i])\<rparr>)"

definition UpdateCellLists :: "Vecd list \<Rightarrow> nat CellLinkedList \<Rightarrow> nat CellLinkedList" where
  "UpdateCellLists pos cll =
     fold (insert_into_cell pos) [0..<length pos] (cll\<lparr>cell_data_lists_' := (\<lambda>cell. [])\<rparr>)"

text \<open>
  Modelled from the spec: the kernel and the neighbor relation functor are defined in
  files that are not among the sources. The spec: the functor tests the cutoff distance
  and, if within range, appends a neighbor record \<open>{j_, r_ij_, dW_ijV_j_, W_ij_, e_ij_}\<close>
  (neighbor index, distance, kernel-gradient-weighted volume, kernel value, unit
  direction); a division by the distance is guarded by a small additive epsilon; a
  Neighborhood keeps \<open>current_size_\<close> at most its allocated capacity, and a rebuild
  overwrites the records of the previous one. So a record is written into slot
  \<open>current_size_\<close>, over the stale record there if the slot is allocated, and the
  count grows by one. Within range is a distance of at most the cutoff radius. By these
  words a particle, a candidate from its own cell at distance zero, is recorded in its
  own Neighborhood as well.
\<close>

record Kernel =
  CutOffRadius :: real
  kernel_W :: "real \<Rightarrow> real"
  kernel_dW :: "real \<Rightarrow> real"

definition write_slot :: "'a list \<Rightarrow> nat \<Rightarrow> 'a \<Rightarrow> 'a list" where
  "write_slot xs n v = (if n < length xs then xs[n := v] else xs @ [v])"

definition write_record :: "Neighborhood \<Rightarrow> nat \<Rightarrow> real \<Rightarrow> real \<Rightarrow> real \<Rightarrow> Vecd \<Rightarrow> Neighborhood" where
  "write_record neighborhood index_j distance W_ij dW_ijV_j e_ij =
     (let n = current_size_' neighborhood
      in neighborhood\<lparr>j_' := write_slot (j_' neighborhood) n index_j,
                      r_ij_' := write_slot (r_ij_' neighborhood) n distance,
                      dW_ijV_j_' := write_slot (dW_ijV_j_' neighborhood) n dW_ijV_j,
                      W_ij_' := write_slot (W_ij_' neighborhood) n W_ij,
                      e_ij_' := write_slot (e_ij_' neighborhood) n e_ij,
                      current_size_' := n + 1\<rparr>)"

definition NeighborRelationInner ::
  "Kernel \<Rightarrow> real \<Rightarrow> Vecd list \<Rightarrow> real list \<Rightarrow> Neighborhood \<Rightarrow> Vecd \<Rightarrow> nat \<Rightarrow> nat \<Rightarrow> Neighborhood" where
  "NeighborRelationInner kern TinyReal pos Vol neighborhood pos_i index_i index_j =
     (let displacement = vec_minus pos_i (pos ! index_j);
          distance = vec_norm displacement
      in if distance \<le> CutOffRadius kern
         then write_record neighborhood index_j distance
                (kernel_W kern distance)
                (kernel_dW kern distance * Vol ! index_j)
                (vec_scale (1 / (distance + TinyReal)) displacement)
         else neighborhood)"

text \<open>
  Modelled from the spec: the inner relation and its \<open>updateConfiguration\<close> are defined
  in files that are not among the sources. The spec: a body owns its particles and a
  reference to the partition, the relation owns the Configuration table;
  \<open>updateConfiguration\<close> triggers the Neighborhood Builder to repopulate every
  particle's Neighborhood, overwriting rather than appending across rebuilds. The kernel,
  the constant \<open>TinyReal\<close> and the search depth of each particle are parameters.
\<close>

record InnerRelation =
  pos_' :: "Vecd list"
  Vol_' :: "real list"
  cell_linked_list_' :: "nat CellLinkedList"
  inner_configuration_' :: ParticleConfiguration

definition updateCellLinkedList :: "InnerRelation \<Rightarrow> InnerRelation" where
  "updateCellLinkedList rel = rel\<lparr>cell_linked_list_' := UpdateCellLists (pos_' rel) (cell_linked_list_' rel)\<rparr>"

definition resetNeighborhoodCurrentSize :: "ParticleConfiguration \<Rightarrow> ParticleConfiguration" where
  "resetNeighborhoodCurrentSize configuration =
     map (\<lambda>neighborhood. neighborhood\<lparr>current_size_' := 0\<rparr>) configuration"

definition updateConfiguration :: "Kernel \<Rightarrow> real \<Rightarrow> (nat \<Rightarrow> int) \<Rightarrow> InnerRelation \<Rightarrow> InnerRelation" where
  "updateConfiguration kern TinyReal get_search_depth rel =
     rel\<lparr>inner_configuration_' :=
       searchNeighborsByParticles (cell_linked_list_' rel)
         \<lparr>particle_index = [0..<length (pos_' rel)], base_particles_pos_' = pos_' rel\<rparr>
         (resetNeighborhoodCurrentSize (inner_configuration_' rel))
         get_search_depth
         (NeighborRelationInner kern TinyReal (pos_' rel) (Vol_' rel))\<rparr>"

text \<open>A rebuild: \<open>updateCellLists\<close> followed by \<open>updateConfiguration\<close>.\<close>

definition rebuild :: "Kernel \<Rightarrow> real \<Rightarrow> (nat \<Rightarrow> int) \<Rightarrow> InnerRelation \<Rightarrow> InnerRelation" where
  "rebuild kern TinyReal get_search_depth rel =
     updateConfiguration kern TinyReal get_search_depth (updateCellLinkedList rel)"

text \<open>The neighbor indices a kernel sees: the first \<open>current_size_\<close> slots of \<open>j_\<close>.\<close>

definition neighbor_indices :: "Neighborhood \<Rightarrow> nat list" where
  "neighbor_indices neighborhood = take (current_size_' neighborhood) (j_' neighborhood)"

text \<open>
  Auxiliary notions for the proofs: the cutoff test of the functor, the candidates that
  the search hands to the functor for one particle, and a list with a block of slots
  overwritten from position \<open>n\<close> on.
\<close>

definition within_cutoff :: "Kernel \<Rightarrow> Vecd list \<Rightarrow> Vecd \<Rightarrow> nat \<Rightarrow> bool" where
  "within_cutoff kern pos pos_i index_j \<longleftrightarrow>
     vec_norm (vec_minus pos_i (pos ! index_j)) \<le> CutOffRadius kern"

definition particle_candidates :: "'ld CellLinkedList \<Rightarrow> Vecd list \<Rightarrow> (nat \<Rightarrow> int) \<Rightarrow> nat \<Rightarrow> 'ld list" where
  "particle_candidates cll pos get_search_depth index_i =
     concat (map (cell_data_lists_' cll)
       (searched_cells (get_search_depth index_i) (number_of_cells_' cll)
          (CellIndexFromPosition cll (pos ! index_i))))"

definition splice_at :: "nat \<Rightarrow> 'a list \<Rightarrow> 'a list \<Rightarrow> 'a list" where
  "splice_at n vs xs = take n xs @ vs @ drop (n + length vs) xs"

text \<open>
  The concrete scenario of the spec: cutoff radius and cell size 1, particles at
  \<open>(0, 0)\<close>, \<open>(0, 0.5)\<close> and \<open>(0, 2)\<close> (in the plane \<open>z = 0\<close> of the three-dimensional
  build), in a mesh of four cells per axis whose lower bound is \<open>(-1, -1, -1)\<close>.
\<close>

definition scenario_kernel :: Kernel where
  "scenario_kernel = \<lparr>CutOffRadius = 1, kernel_W = (\<lambda>r. 1 - r), kernel_dW = (\<lambda>r. - 1)\<rparr>"

definition scenario_relation :: InnerRelation where
  "scenario_relation =
     \<lparr>pos_' = [(0, 0, 0), (0, 1 / 2, 0), (0, 2, 0)],
      Vol_' = [1, 1, 1],
      cell_linked_list_' =
        \<lparr>mesh_lower_bound_' = (- 1, - 1, - 1), grid_spacing_' = 1,
         number_of_cells_' = (4, 4, 4), cell_data_lists_' = (\<lambda>cell. [])\<rparr>,
      inner_configuration_' =
        replicate 3 \<lparr>current_size_' = 0, j_' = [], W_ij_' = [], dW_ijV_j_' = [], r_ij_' = [], e_ij_' = []\<rparr>\<rparr>"

section \<open>Interaction kernels\<close>

text \<open>
  Each kernel class is a record of the members its methods touch; the member
  \<open>inner_configuration_\<close> (or \<open>contact_configuration_\<close>) is the Neighborhood table of the
  relation the kernel was built on. A method is a function from the state before the
  call to the state after it.
\<close>

subsection \<open>Double precision arithmetic\<close>

text \<open>
  Where a statement depends on rounding, or a kernel must return whatever its quotients
  are, the model computes as the program does, in IEEE 754 double precision (binary64)
  with rounding to nearest, ties to even. A double is \<open>Finite x\<close> for the real number \<open>x\<close>
  it stands for, or \<open>NonFinite\<close> for a value that is no real number (an infinity or a
  NaN; the model does not tell them apart). Every operation rounds the exact result: to a
  multiple of \<open>2 ^ (e - 52)\<close> where \<open>2 ^ e\<close> is the power of two at or below its
  magnitude, to a multiple of \<open>2 ^ (- 1074)\<close> in the subnormal range, and to \<open>NonFinite\<close>
  from \<open>2 ^ 1024\<close> on. Each operation of the source is rounded by itself (no fused
  multiply-add), zero has no sign, a division by zero is \<open>NonFinite\<close>, an operation on
  \<open>NonFinite\<close> is \<open>NonFinite\<close>, and a comparison with \<open>NonFinite\<close> is false (as it is for a
  NaN). A literal \<open>c\<close> of the source is the double \<open>binary64_round c\<close> nearest to it.
\<close>

datatype double = Finite real | NonFinite

definition pow2 :: "int \<Rightarrow> real" where
  "pow2 e = (if 0 \<le> e then 2 ^ nat e else 1 / 2 ^ nat (- e))"

definition floor_log2 :: "real \<Rightarrow> int" where
  "floor_log2 x = (if 1 \<le> x then bitlen \<lfloor>x\<rfloor> - 1 else - bitlen (\<lceil>1 / x\<rceil> - 1))"

definition round_half_even :: "real \<Rightarrow> int" where
  "round_half_even x =
     (let f = \<lfloor>x\<rfloor>; r = x - real_of_int f
      in if r < 1 / 2 then f
         else if 1 / 2 < r then f + 1
         else if even f then f else f + 1)"

definition binary64_round :: "real \<Rightarrow> double" where
  "binary64_round x =
     (if x = 0 then Finite 0
      else
        (let quantum = pow2 (max (floor_log2 \<bar>x\<bar> - 52) (- 1074));
             rounded = real_of_int (round_half_even (x / quantum)) * quantum
         in if pow2 1024 \<le> \<bar>rounded\<bar> then NonFinite else Finite rounded))"

instantiation double :: "{zero, one, plus, minus, times, inverse, abs, ord}"
begin

definition zero_double :: double where
  "zero_double = Finite 0"

definition one_double :: double where
  "one_double = Finite 1"

definition plus_double :: "double \<Rightarrow> double \<Rightarrow> double" where
  "plus_double a b = (case (a, b) of (Finite x, Finite y) \<Rightarrow> binary64_round (x + y) | _ \<Rightarrow> NonFinite)"

definition minus_double :: "double \<Rightarrow> double \<Rightarrow> double" where
  "minus_double a b = (case (a, b) of (Finite x, Finite y) \<Rightarrow> binary64_round (x - y) | _ \<Rightarrow> NonFinite)"

definition times_double :: "double \<Rightarrow> double \<Rightarrow> double" where
  "times_double a b = (case (a, b) of (Finite x, Finite y) \<Rightarrow> binary64_round (x * y) | _ \<Rightarrow> NonFinite)"

definition divide_double :: "double \<Rightarrow> double \<Rightarrow> double" where
  "divide_double a b =
     (case (a, b) of
        (Finite x, Finite y) \<Rightarrow> (if y = 0 then NonFinite else binary64_round (x / y))
      | _ \<Rightarrow> NonFinite)"

definition inverse_double :: "double \<Rightarrow> double" where
  "inverse_double a =
     (case a of Finite x \<Rightarrow> (if x = 0 then NonFinite else binary64_round (1 / x)) | NonFinite \<Rightarrow> NonFinite)"

definition abs_double :: "double \<Rightarrow> double" where
  "abs_double a = (case a of Finite x \<Rightarrow> Finite \<bar>x\<bar> | NonFinite \<Rightarrow> NonFinite)"

definition less_double :: "double \<Rightarrow> double \<Rightarrow> bool" where
  "less_double a b = (case (a, b) of (Finite x, Finite y) \<Rightarrow> x < y | _ \<Rightarrow> False)"

definition less_eq_double :: "double \<Rightarrow> double \<Rightarrow> bool" where
  "less_eq_double a b = (case (a, b) of (Finite x, Finite y) \<Rightarrow> x \<le> y | _ \<Rightarrow> False)"

instance ..

end

text \<open>
  Modelled from the spec: the macros \<open>SMIN\<close>, \<open>SMAX\<close> and \<open>ABS\<close> on doubles, with the
  comparison of doubles; \<open>ABS\<close> is the absolute value \<open>\<bar>a\<bar>\<close> above. The square root is
  rounded like every other operation.
\<close>

definition double_SMIN :: "double \<Rightarrow> double \<Rightarrow> double" where
  "double_SMIN a b = (if a \<le> b then a else b)"

definition double_SMAX :: "double \<Rightarrow> double \<Rightarrow> double" where
  "double_SMAX a b = (if a \<ge> b then a else b)"

definition double_sqrt :: "double \<Rightarrow> double" where
  "double_sqrt a =
     (case a of Finite x \<Rightarrow> (if x < 0 then NonFinite else binary64_round (sqrt x)) | NonFinite \<Rightarrow> NonFinite)"

subsection \<open>CoefficientEvolutionExplicitTem\<close>

text \<open>
  The members that \<open>CoefficientEvolutionExplicitTem::update\<close> touches, as arrays of
  doubles. The constant \<open>Eps\<close> of the library is not among the sources and is the
  parameter \<open>eps\<close>.
\<close>

record CoefficientEvolutionExplicitTem =
  change_rate_' :: "double list"
  eta_' :: "double list"

definition CoefficientEvolutionExplicitTem_update ::
  "double \<Rightarrow> nat \<Rightarrow> double \<Rightarrow> CoefficientEvolutionExplicitTem \<Rightarrow> CoefficientEvolutionExplicitTem" where
  "CoefficientEvolutionExplicitTem_update eps index_i dt s =
     (let increment = change_rate_' s ! index_i * dt;
          theta = (if increment < 0
                   then double_SMIN ((binary64_round 0.01 + eps - eta_' s ! index_i) / increment) 1
                   else 1)
      in s\<lparr>eta_' := (eta_' s)[index_i := eta_' s ! index_i + increment * theta]\<rparr>)"

text \<open>
  A particle with coefficient 2.33 and change rate \<open>-4.25\<close>, and the machine epsilon
  \<open>2 ^ (- 52)\<close> of doubles.
\<close>

definition machine_epsilon :: double where
  "machine_epsilon = Finite (pow2 (- 52))"

definition falling_coefficient :: CoefficientEvolutionExplicitTem where
  "falling_coefficient =
     \<lparr>change_rate_' = [binary64_round (- 4.25)], eta_' = [binary64_round 2.33]\<rparr>"

subsection \<open>ParticleSmoothing\<close>

text \<open>
  \<open>ParticleSmoothing\<close> with \<open>VariableType = Real\<close>. The constant \<open>TinyReal\<close> is not among
  the sources and is a parameter. The quotient in \<open>interaction\<close> is the total division of
  the reals; no statement below depends on its value when the denominator is zero.
\<close>

record ParticleSmoothing =
  W0_' :: real
  smoothed_' :: "real list"
  temp_' :: "real list"
  inner_configuration_PS :: ParticleConfiguration

definition ParticleSmoothing_interaction :: "real \<Rightarrow> nat \<Rightarrow> ParticleSmoothing \<Rightarrow> ParticleSmoothing" where
  "ParticleSmoothing_interaction TinyReal index_i s =
     (let inner_neighborhood = inner_configuration_PS s ! index_i;
          (summation, weight) =
            fold (\<lambda>n (summation, weight).
                    let index_j = j_' inner_neighborhood ! n
                    in (summation + W_ij_' inner_neighborhood ! n * smoothed_' s ! index_j,
                        weight + W_ij_' inner_neighborhood ! n))
              [0..<current_size_' inner_neighborhood]
              (W0_' s * smoothed_' s ! index_i, W0_' s)
      in s\<lparr>temp_' := (temp_' s)[index_i := summation / (weight + TinyReal)]\<rparr>)"

definition ParticleSmoothing_update :: "nat \<Rightarrow> ParticleSmoothing \<Rightarrow> ParticleSmoothing" where
  "ParticleSmoothing_update index_i s = s\<lparr>smoothed_' := (smoothed_' s)[index_i := temp_' s ! index_i]\<rparr>"

text \<open>
  One execution of the dynamics: \<open>interaction\<close> for the particles in the order
  \<open>interaction_order\<close>, then \<open>update\<close> for the particles in the order \<open>update_order\<close>.
\<close>

definition ParticleSmoothing_exec :: "real \<Rightarrow> nat list \<Rightarrow> nat list \<Rightarrow> ParticleSmoothing \<Rightarrow> ParticleSmoothing" where
  "ParticleSmoothing_exec TinyReal interaction_order update_order s =
     fold ParticleSmoothing_update update_order
       (fold (ParticleSmoothing_interaction TinyReal) interaction_order s)"

text \<open>Auxiliary notion for the proofs: the value that \<open>interaction\<close> stores for a particle.\<close>

definition smoothing_value :: "real \<Rightarrow> nat \<Rightarrow> ParticleSmoothing \<Rightarrow> real" where
  "smoothing_value TinyReal index_i s =
     (let inner_neighborhood = inner_configuration_PS s ! index_i;
          (summation, weight) =
            fold (\<lambda>n (summation, weight).
                    let index_j = j_' inner_neighborhood ! n
                    in (summation + W_ij_' inner_neighborhood ! n * smoothed_' s ! index_j,
                        weight + W_ij_' inner_neighborhood ! n))
              [0..<current_size_' inner_neighborhood]
              (W0_' s * smoothed_' s ! index_i, W0_' s)
      in summation / (weight + TinyReal))"

subsection \<open>Division by an inter-particle distance\<close>

text \<open>
  A quotient whose denominator is zero is not a real number (in the floating-point
  arithmetic of the program it is an infinity or a NaN, and no error is raised). The two
  kernels below divide by a term built from the distance \<open>r_ij_\<close>; their quotients are
  taken with \<open>checked_divide\<close>, and a kernel whose computation meets a zero denominator
  returns \<open>None\<close>.
\<close>

definition checked_divide :: "real \<Rightarrow> real \<Rightarrow> real option" where
  "checked_divide a b = (if b = 0 then None else Some (a / b))"

definition vec_checked_divide :: "Vecd \<Rightarrow> real \<Rightarrow> Vecd option" where
  "vec_checked_divide a b = (if b = 0 then None else Some (vec_scale (1 / b) a))"

subsection \<open>LaplacianInner\<close>

text \<open>\<open>LaplacianInner\<close> with \<open>DataType = Real\<close>.\<close>

record LaplacianInner =
  in_variable_' :: "real list"
  out_variable_' :: "real list"
  inner_configuration_Lap :: ParticleConfiguration

definition LaplacianInner_loopNeighbors ::
  "nat \<Rightarrow> (nat \<Rightarrow> nat \<Rightarrow> real) \<Rightarrow> LaplacianInner \<Rightarrow> LaplacianInner option" where
  "LaplacianInner_loopNeighbors index_i coefficient s =
     (let neighborhood = inner_configuration_Lap s ! index_i;
          total = fold (\<lambda>n total.
                    case total of
                      None \<Rightarrow> None
                    | Some sum_n \<Rightarrow>
                        (let index_j = j_' neighborhood ! n
                         in case checked_divide
                                   (2 * coefficient index_i index_j *
                                    (in_variable_' s ! index_i - in_variable_' s ! index_j) *
                                    dW_ijV_j_' neighborhood ! n)
                                   (r_ij_' neighborhood ! n) of
                              None \<Rightarrow> None
                            | Some term_n \<Rightarrow> Some (sum_n + term_n)))
                  [0..<current_size_' neighborhood] (Some 0)
      in case total of
           None \<Rightarrow> None
         | Some sum_n \<Rightarrow> Some (s\<lparr>out_variable_' := (out_variable_' s)[index_i := sum_n]\<rparr>))"

subsection \<open>ViscousForceFromFluid\<close>

record ViscousForceFromFluid =
  Vol_VF :: "real list"
  vel_ave_' :: "Vecd list"
  contact_vel_n_' :: "Vecd list list"
  mu_' :: "real list"
  smoothing_length_' :: "real list"
  contact_configuration_' :: "ParticleConfiguration list"
  force_from_fluid_' :: "Vecd list"

text \<open>The inner loop of \<open>interaction\<close> over the neighbors in contact body \<open>k\<close>.\<close>

definition ViscousForceFromFluid_contact ::
  "nat \<Rightarrow> ViscousForceFromFluid \<Rightarrow> nat \<Rightarrow> Vecd option \<Rightarrow> Vecd option" where
  "ViscousForceFromFluid_contact index_i s k force =
     (let Vol_i = Vol_VF s ! index_i;
          vel_ave_i = vel_ave_' s ! index_i;
          mu_k = mu_' s ! k;
          smoothing_length_k = smoothing_length_' s ! k;
          vel_n_k = contact_vel_n_' s ! k;
          contact_neighborhood = contact_configuration_' s ! k ! index_i
      in fold (\<lambda>n force.
            case force of
              None \<Rightarrow> None
            | Some force \<Rightarrow>
                (let index_j = j_' contact_neighborhood ! n
                 in case vec_checked_divide
                           (vec_scale 2 (vec_minus vel_ave_i (vel_n_k ! index_j)))
                           (r_ij_' contact_neighborhood ! n + 0.01 * smoothing_length_k) of
                      None \<Rightarrow> None
                    | Some vel_derivative \<Rightarrow>
                        Some (vec_plus force
                          (vec_scale (2 * mu_k * Vol_i * dW_ijV_j_' contact_neighborhood ! n)
                             vel_derivative))))
          [0..<current_size_' contact_neighborhood] force)"

definition ViscousForceFromFluid_interaction ::
  "nat \<Rightarrow> real \<Rightarrow> ViscousForceFromFluid \<Rightarrow> ViscousForceFromFluid option" where
  "ViscousForceFromFluid_interaction index_i dt s =
     (case fold (ViscousForceFromFluid_contact index_i s)
             [0..<length (contact_configuration_' s)] (Some vec_zero) of
        None \<Rightarrow> None
      | Some force \<Rightarrow> Some (s\<lparr>force_from_fluid_' := (force_from_fluid_' s)[index_i := force]\<rparr>))"

text \<open>
  A Neighborhood of one particle with one neighbor, particle 1, at distance zero: two
  coincident particles.
\<close>

definition coincident_neighborhood :: Neighborhood where
  "coincident_neighborhood =
     \<lparr>current_size_' = 1, j_' = [1], W_ij_' = [1], dW_ijV_j_' = [- 1], r_ij_' = [0],
      e_ij_' = [(0, 0, 0)]\<rparr>"

definition coincident_LaplacianInner :: LaplacianInner where
  "coincident_LaplacianInner =
     \<lparr>in_variable_' = [1, 2], out_variable_' = [0, 0],
      inner_configuration_Lap = [coincident_neighborhood, coincident_neighborhood]\<rparr>"

definition coincident_ViscousForceFromFluid :: ViscousForceFromFluid where
  "coincident_ViscousForceFromFluid =
     \<lparr>Vol_VF = [1], vel_ave_' = [(0, 0, 0)], contact_vel_n_' = [[(1, 0, 0), (1, 0, 0)]],
      mu_' = [1], smoothing_length_' = [1],
      contact_configuration_' = [[coincident_neighborhood]],
      force_from_fluid_' = [(0, 0, 0)]\<rparr>"

text \<open>
  Two particles at distance \<open>1/2\<close> that are each other's only neighbor, and kernels built
  on their Neighborhood table.
\<close>

definition pair_configuration :: ParticleConfiguration where
  "pair_configuration =
     [\<lparr>current_size_' = 1, j_' = [1], W_ij_' = [1 / 2], dW_ijV_j_' = [- 1], r_ij_' = [1 / 2],
       e_ij_' = [(- 1, 0, 0)]\<rparr>,
      \<lparr>current_size_' = 1, j_' = [0], W_ij_' = [1 / 2], dW_ijV_j_' = [- 1], r_ij_' = [1 / 2],
       e_ij_' = [(1, 0, 0)]\<rparr>]"

definition pair_ParticleSmoothing :: ParticleSmoothing where
  "pair_ParticleSmoothing =
     \<lparr>W0_' = 1, smoothed_' = [1, 3], temp_' = [0, 0], inner_configuration_PS = pair_configuration\<rparr>"

section \<open>Execution drivers with periodic conditions\<close>

text \<open>
  The operations that the two drivers with periodic conditions call inside their time
  loops, by what they do to the partition and the configuration: a periodic bounding, the
  rebuild of the cell linked lists, the ghost update of the cell linked lists by a
  periodic condition, the rebuild of the configurations of the bodies, the rebuild of the
  configuration of an observer (which reads the cell linked list of the observed body), a
  dynamics that reads Neighborhoods (named by the driver's variable), and any other call
  (a dynamics of single particles, a reduction, an output). The setup before the loops,
  which builds lists and configurations once, is not part of a pass.
\<close>

datatype axis = xAxis | yAxis

datatype driver_call =
    bounding axis
  | updateCellLinkedList_call
  | update_cell_linked_list axis
  | updateConfiguration_call
  | observer_updateConfiguration_call
  | neighbor_dynamics string
  | other_call string

text \<open>
  The body of the relaxation loop \<open>while (ite_p < 2000)\<close> of the relaxation driver, for
  the value of \<open>ite_p\<close> at the start of the pass, and the loop.
\<close>

definition relaxation_pass :: "nat \<Rightarrow> driver_call list" where
  "relaxation_pass ite_p =
     [bounding xAxis, bounding yAxis,
      updateCellLinkedList_call,
      update_cell_linked_list xAxis, update_cell_linked_list yAxis,
      updateConfiguration_call,
      neighbor_dynamics ''relaxation_inner_explicit''] @
     (if ite_p = 0
      then [neighbor_dynamics ''update_kinetic_energy'', other_call ''average_residue'']
      else []) @
     (if (ite_p + 1) mod 50 = 0
      then [neighbor_dynamics ''update_kinetic_energy'', other_call ''average_residue'',
            other_call ''write_insert_body_to_vtp'']
      else [])"

definition relaxation_loop :: "driver_call list" where
  "relaxation_loop = concat (map relaxation_pass [0..<2000])"

text \<open>
  The body of the integration loop \<open>while (integration_time < output_interval)\<close> of the
  flow driver. The inner loop \<open>while (relaxation_time < Dt)\<close> runs a number of passes that
  depends on the time step sizes; \<open>inner_ite_dt\<close> is that number. A run of the loop is a
  sequence of passes, one for each entry of a list of such numbers.
\<close>

definition acoustic_pass :: "driver_call list" where
  "acoustic_pass =
     [other_call ''get_fluid_time_step_size'',
      neighbor_dynamics ''pressure_relaxation'',
      neighbor_dynamics ''pressure_force_on_cylinder'',
      neighbor_dynamics ''density_relaxation'',
      other_call ''freestream_condition'']"

definition integration_pass :: "nat \<Rightarrow> driver_call list" where
  "integration_pass inner_ite_dt =
     [other_call ''initialize_a_fluid_step'',
      other_call ''get_fluid_advection_time_step_size'',
      neighbor_dynamics ''update_density_by_summation'',
      neighbor_dynamics ''viscous_acceleration'',
      neighbor_dynamics ''transport_velocity_correction'',
      neighbor_dynamics ''viscous_force_on_cylinder''] @
     concat (replicate inner_ite_dt acoustic_pass) @
     [bounding xAxis, bounding yAxis,
      updateCellLinkedList_call,
      update_cell_linked_list xAxis, update_cell_linked_list yAxis,
      updateConfiguration_call]"

definition integration_loop :: "nat list \<Rightarrow> driver_call list" where
  "integration_loop passes = concat (map integration_pass passes)"

text \<open>
  The main loop \<open>while (physical_time_ < end_time)\<close> of the flow driver: each pass runs the
  integration loop and then the output section.
\<close>

definition output_section :: "driver_call list" where
  "output_section =
     [neighbor_dynamics ''compute_vorticity'',
      other_call ''write_real_body_states'',
      other_call ''write_total_viscous_force_on_inserted_body'',
      other_call ''write_total_force_on_inserted_body'',
      observer_updateConfiguration_call,
      other_call ''write_fluid_velocity'']"

definition main_loop :: "nat list list \<Rightarrow> driver_call list" where
  "main_loop runs = concat (map (\<lambda>passes. integration_loop passes @ output_section) runs)"

text \<open>
  The ordering requirement of the spec as a monitor over the calls of a run. Between
  rebuilds the monitor is \<open>Ready\<close>; a bounding moves it to \<open>Bounded\<close>, the rebuild of the
  cell linked lists from \<open>Bounded\<close> to \<open>CellsBuilt\<close>, and the rebuild of the configurations
  from \<open>CellsBuilt\<close> back to \<open>Ready\<close>. A dynamics that reads Neighborhoods and the
  rebuild of an observer's configuration are accepted only in \<open>Ready\<close>, and a rebuild only
  in its place in the sequence; every other order is rejected with \<open>None\<close>.
\<close>

datatype rebuild_phase = Ready | Bounded | CellsBuilt

fun monitor_call :: "rebuild_phase \<Rightarrow> driver_call \<Rightarrow> rebuild_phase option" where
  "monitor_call phase (other_call name) = Some phase"
| "monitor_call Ready (bounding a) = Some Bounded"
| "monitor_call Bounded (bounding a) = Some Bounded"
| "monitor_call Bounded updateCellLinkedList_call = Some CellsBuilt"
| "monitor_call CellsBuilt (update_cell_linked_list a) = Some CellsBuilt"
| "monitor_call CellsBuilt updateConfiguration_call = Some Ready"
| "monitor_call Ready (neighbor_dynamics name) = Some Ready"
| "monitor_call Ready observer_updateConfiguration_call = Some Ready"
| "monitor_call phase call = None"

fun monitor_run :: "rebuild_phase \<Rightarrow> driver_call list \<Rightarrow> rebuild_phase option" where
  "monitor_run phase [] = Some phase"
| "monitor_run phase (call # calls) =
     (case monitor_call phase call of
        None \<Rightarrow> None
      | Some phase' \<Rightarrow> monitor_run phase' calls)"

text \<open>The calls of a pass that act on the partition or the configuration, in their order.\<close>

fun acts_on_configuration :: "driver_call \<Rightarrow> bool" where
  "acts_on_configuration (neighbor_dynamics name) = False"
| "acts_on_configuration (other_call name) = False"
| "acts_on_configuration call = True"

definition rebuild_calls :: "driver_call list \<Rightarrow> driver_call list" where
  "rebuild_calls calls = filter acts_on_configuration calls"

section \<open>HardeningPlasticSolid\<close>

text \<open>
  A matrix \<open>Matd\<close> of the three-dimensional build is the list of its three rows. The
  operations of the linear algebra library are written out for this dimension: the
  determinant by expansion along the first row, the inverse as the transposed matrix of
  cofactors over the determinant, the norm as the Frobenius norm.
\<close>

type_synonym Matd = "real list list"

definition Dimensions :: nat where
  "Dimensions = 3"

definition OneOverDimensions :: real where
  "OneOverDimensions = 1 / real Dimensions"

definition mat_of :: "(nat \<Rightarrow> nat \<Rightarrow> real) \<Rightarrow> Matd" where
  "mat_of f = map (\<lambda>r. map (\<lambda>c. f r c) [0..<Dimensions]) [0..<Dimensions]"

definition mat_identity :: Matd where
  "mat_identity = mat_of (\<lambda>r c. if r = c then 1 else 0)"

definition mat_mul :: "Matd \<Rightarrow> Matd \<Rightarrow> Matd" where
  "mat_mul A B = mat_of (\<lambda>r c. sum_list (map (\<lambda>k. A ! r ! k * B ! k ! c) [0..<Dimensions]))"

definition mat_transpose :: "Matd \<Rightarrow> Matd" where
  "mat_transpose A = mat_of (\<lambda>r c. A ! c ! r)"

definition mat_scale :: "real \<Rightarrow> Matd \<Rightarrow> Matd" where
  "mat_scale s A = mat_of (\<lambda>r c. s * A ! r ! c)"

definition mat_divide :: "Matd \<Rightarrow> real \<Rightarrow> Matd" where
  "mat_divide A s = mat_of (\<lambda>r c. A ! r ! c / s)"

definition mat_add :: "Matd \<Rightarrow> Matd \<Rightarrow> Matd" where
  "mat_add A B = mat_of (\<lambda>r c. A ! r ! c + B ! r ! c)"

definition mat_sub :: "Matd \<Rightarrow> Matd \<Rightarrow> Matd" where
  "mat_sub A B = mat_of (\<lambda>r c. A ! r ! c - B ! r ! c)"

definition mat_trace :: "Matd \<Rightarrow> real" where
  "mat_trace A = sum_list (map (\<lambda>k. A ! k ! k) [0..<Dimensions])"

definition mat_norm :: "Matd \<Rightarrow> real" where
  "mat_norm A = sqrt (sum_list (map (\<lambda>r. sum_list (map (\<lambda>c. A ! r ! c * A ! r ! c) [0..<Dimensions]))
                        [0..<Dimensions]))"

definition mat_cofactor :: "Matd \<Rightarrow> nat \<Rightarrow> nat \<Rightarrow> real" where
  "mat_cofactor A r c =
     A ! ((r + 1) mod 3) ! ((c + 1) mod 3) * A ! ((r + 2) mod 3) ! ((c + 2) mod 3) -
     A ! ((r + 1) mod 3) ! ((c + 2) mod 3) * A ! ((r + 2) mod 3) ! ((c + 1) mod 3)"

definition mat_determinant :: "Matd \<Rightarrow> real" where
  "mat_determinant A = sum_list (map (\<lambda>c. A ! 0 ! c * mat_cofactor A 0 c) [0..<Dimensions])"

definition mat_inverse :: "Matd \<Rightarrow> Matd" where
  "mat_inverse A = mat_of (\<lambda>r c. mat_cofactor A c r / mat_determinant A)"

text \<open>
  The material constants and the particle variables of \<open>HardeningPlasticSolid\<close> that
  \<open>PlasticConstitutiveRelation\<close> uses. The functions \<open>DeviatoricKirchhoff\<close> and
  \<open>VolumetricKirchhoff\<close> of the elastic base class are not among the sources and are
  parameters. \<open>pow\<close> is the real power \<open>powr\<close>, and the quotients are the total division
  of the reals: the statements below are about the hardening parameter, where the
  denominator of the relax increment is not zero.
\<close>

record HardeningPlasticSolid =
  G0_' :: real
  hardening_modulus_' :: real
  yield_stress_' :: real
  inverse_plastic_strain_' :: "Matd list"
  hardening_parameter_' :: "real list"

definition sqrt_2_over_3_' :: real where
  "sqrt_2_over_3_' = sqrt (2 / 3)"

definition PlasticConstitutiveRelation ::
  "(Matd \<Rightarrow> Matd) \<Rightarrow> (real \<Rightarrow> real) \<Rightarrow> Matd \<Rightarrow> nat \<Rightarrow> real \<Rightarrow> HardeningPlasticSolid \<Rightarrow>
   Matd \<times> HardeningPlasticSolid" where
  "PlasticConstitutiveRelation DeviatoricKirchhoff VolumetricKirchhoff F index_i dt s =
     (let be = mat_mul (mat_mul F (inverse_plastic_strain_' s ! index_i)) (mat_transpose F);
          normalized_be = mat_scale (mat_determinant be powr (- OneOverDimensions)) be;
          normalized_be_isentropic = mat_trace normalized_be * OneOverDimensions;
          deviatoric_PK = DeviatoricKirchhoff
            (mat_sub normalized_be (mat_scale normalized_be_isentropic mat_identity));
          deviatoric_PK_norm = mat_norm deviatoric_PK;
          trial_function = deviatoric_PK_norm -
            sqrt_2_over_3_' * (hardening_modulus_' s * hardening_parameter_' s ! index_i + yield_stress_' s);
          (hardening_parameter_i, deviatoric_PK, normalized_be) =
            (if trial_function > 0
             then
               (let renormalized_shear_modulus = normalized_be_isentropic * G0_' s;
                    relax_increment = 0.5 * trial_function /
                      (renormalized_shear_modulus + hardening_modulus_' s / 3);
                    hardening_parameter_i =
                      hardening_parameter_' s ! index_i + sqrt_2_over_3_' * relax_increment;
                    deviatoric_PK = mat_sub deviatoric_PK
                      (mat_divide (mat_scale (2 * renormalized_shear_modulus * relax_increment)
                         deviatoric_PK) deviatoric_PK_norm);
                    relaxed_be = mat_add (mat_divide deviatoric_PK (G0_' s))
                      (mat_scale normalized_be_isentropic mat_identity);
                    normalized_be =
                      mat_scale (mat_determinant relaxed_be powr (- OneOverDimensions)) relaxed_be
                in (hardening_parameter_i, deviatoric_PK, normalized_be))
             else (hardening_parameter_' s ! index_i, deviatoric_PK, normalized_be));
          inverse_F = mat_inverse F;
          inverse_F_T = mat_transpose inverse_F
      in (mat_mul (mat_add deviatoric_PK
                     (mat_scale (VolumetricKirchhoff (mat_determinant F)) mat_identity))
            inverse_F_T,
          s\<lparr>hardening_parameter_' := (hardening_parameter_' s)[index_i := hardening_parameter_i],
            inverse_plastic_strain_' := (inverse_plastic_strain_' s)
              [index_i := mat_mul (mat_mul inverse_F normalized_be) inverse_F_T]\<rparr>))"

text \<open>
  The trial quantities that \<open>PlasticConstitutiveRelation\<close> computes before it branches:
  the isentropic part of the normalized trial strain, the renormalized (trial) shear
  modulus and the trial yield function.
\<close>

definition trial_normalized_be_isentropic :: "Matd \<Rightarrow> nat \<Rightarrow> HardeningPlasticSolid \<Rightarrow> real" where
  "trial_normalized_be_isentropic F index_i s =
     (let be = mat_mul (mat_mul F (inverse_plastic_strain_' s ! index_i)) (mat_transpose F);
          normalized_be = mat_scale (mat_determinant be powr (- OneOverDimensions)) be
      in mat_trace normalized_be * OneOverDimensions)"

definition renormalized_shear_modulus :: "Matd \<Rightarrow> nat \<Rightarrow> HardeningPlasticSolid \<Rightarrow> real" where
  "renormalized_shear_modulus F index_i s = trial_normalized_be_isentropic F index_i s * G0_' s"

definition trial_function :: "(Matd \<Rightarrow> Matd) \<Rightarrow> Matd \<Rightarrow> nat \<Rightarrow> HardeningPlasticSolid \<Rightarrow> real" where
  "trial_function DeviatoricKirchhoff F index_i s =
     (let be = mat_mul (mat_mul F (inverse_plastic_strain_' s ! index_i)) (mat_transpose F);
          normalized_be = mat_scale (mat_determinant be powr (- OneOverDimensions)) be;
          normalized_be_isentropic = mat_trace normalized_be * OneOverDimensions;
          deviatoric_PK = DeviatoricKirchhoff
            (mat_sub normalized_be (mat_scale normalized_be_isentropic mat_identity))
      in mat_norm deviatoric_PK -
           sqrt_2_over_3_' * (hardening_modulus_' s * hardening_parameter_' s ! index_i + yield_stress_' s))"

text \<open>
  A simple shear of amount 1 applied to a material without plastic history (inverse
  plastic strain the identity, hardening parameter 0), with shear modulus 1 and yield
  stress 1: once with hardening modulus 3, once with hardening modulus \<open>-6\<close>. The
  deviatoric stress of the example is the shear modulus times the deviatoric strain.
\<close>

definition simple_shear :: Matd where
  "simple_shear = [[1, 1, 0], [0, 1, 0], [0, 0, 1]]"

definition hardening_solid :: HardeningPlasticSolid where
  "hardening_solid =
     \<lparr>G0_' = 1, hardening_modulus_' = 3, yield_stress_' = 1,
      inverse_plastic_strain_' = [[[1, 0, 0], [0, 1, 0], [0, 0, 1]]],
      hardening_parameter_' = [0]\<rparr>"

definition softening_solid :: HardeningPlasticSolid where
  "softening_solid =
     \<lparr>G0_' = 1, hardening_modulus_' = - 6, yield_stress_' = 1,
      inverse_plastic_strain_' = [[[1, 0, 0], [0, 1, 0], [0, 0, 1]]],
      hardening_parameter_' = [0]\<rparr>"

section \<open>The kernels on the data they share\<close>

text \<open>
  The kernels of a body work on shared data. Each holds references to arrays of the
  body's particles (a \<open>StdLargeVec\<close>, a member of the particles or looked up with
  \<open>getVariableByName\<close>), to the Neighborhood table of the inner relation
  (\<open>inner_configuration_\<close>), to the tables of the contact relation
  (\<open>contact_configuration_[k]\<close>, one for each contact body) and to arrays of the particles of
  the contact bodies. The record \<open>DataDelegate\<close> is this data. An array is addressed by
  the name under which the source registers it or looks it up, and by the name of the
  member that refers to it where the sources give no name. A method of a kernel is a
  function from the data before the call to the data after it; it is handed the tables
  together with the arrays, as the method is. The values are doubles; a value of a table,
  a real number in the model of the rebuild, is read as the double nearest to it.
\<close>

type_synonym double_Vecd = "double \<times> double \<times> double"

record DataDelegate =
  particles_Real :: "string \<Rightarrow> double list"
  particles_Vecd :: "string \<Rightarrow> double_Vecd list"
  particles_int :: "string \<Rightarrow> int list"
  inner_configuration_DD :: ParticleConfiguration
  contact_configuration_DD :: "ParticleConfiguration list"
  contact_particles_Real :: "(string \<Rightarrow> double list) list"
  contact_particles_Vecd :: "(string \<Rightarrow> double_Vecd list) list"

definition write_Real :: "string \<Rightarrow> nat \<Rightarrow> double \<Rightarrow> DataDelegate \<Rightarrow> DataDelegate" where
  "write_Real name index_i v d =
     d\<lparr>particles_Real := (particles_Real d)(name := (particles_Real d name)[index_i := v])\<rparr>"

definition write_Vecd :: "string \<Rightarrow> nat \<Rightarrow> double_Vecd \<Rightarrow> DataDelegate \<Rightarrow> DataDelegate" where
  "write_Vecd name index_i v d =
     d\<lparr>particles_Vecd := (particles_Vecd d)(name := (particles_Vecd d name)[index_i := v])\<rparr>"

definition table_Real :: "real \<Rightarrow> double" where
  "table_Real x = binary64_round x"

definition table_Vecd :: "Vecd \<Rightarrow> double_Vecd" where
  "table_Vecd a = (case a of (a0, a1, a2) \<Rightarrow> (binary64_round a0, binary64_round a1, binary64_round a2))"

text \<open>
  The operations of \<open>Vecd\<close> on doubles, component by component. The sum of a dot product
  is taken from the first component to the last; a vector times a scalar is the scalar
  times the vector.
\<close>

definition double_Vecd_Zero :: double_Vecd where
  "double_Vecd_Zero = (0, 0, 0)"

definition double_Vecd_plus :: "double_Vecd \<Rightarrow> double_Vecd \<Rightarrow> double_Vecd" where
  "double_Vecd_plus a b = (case (a, b) of ((a0, a1, a2), (b0, b1, b2)) \<Rightarrow> (a0 + b0, a1 + b1, a2 + b2))"

definition double_Vecd_minus :: "double_Vecd \<Rightarrow> double_Vecd \<Rightarrow> double_Vecd" where
  "double_Vecd_minus a b = (case (a, b) of ((a0, a1, a2), (b0, b1, b2)) \<Rightarrow> (a0 - b0, a1 - b1, a2 - b2))"

definition double_Vecd_scale :: "double \<Rightarrow> double_Vecd \<Rightarrow> double_Vecd" where
  "double_Vecd_scale c a = (case a of (a0, a1, a2) \<Rightarrow> (c * a0, c * a1, c * a2))"

definition double_Vecd_divide :: "double_Vecd \<Rightarrow> double \<Rightarrow> double_Vecd" where
  "double_Vecd_divide a c = (case a of (a0, a1, a2) \<Rightarrow> (a0 / c, a1 / c, a2 / c))"

definition double_Vecd_dot :: "double_Vecd \<Rightarrow> double_Vecd \<Rightarrow> double" where
  "double_Vecd_dot a b = (case (a, b) of ((a0, a1, a2), (b0, b1, b2)) \<Rightarrow> a0 * b0 + a1 * b1 + a2 * b2)"

definition double_Vecd_norm :: "double_Vecd \<Rightarrow> double" where
  "double_Vecd_norm a = double_sqrt (double_Vecd_dot a a)"

subsection \<open>The kernels of the fluid surface\<close>

text \<open>
  \<open>FreeSurfaceIndicationInner::interaction\<close>. For all kernels of this subsection the
  constant \<open>TinyReal\<close> of the library is a parameter, and so are the members that hold a
  constant (\<open>threshold_by_dimensions_\<close>, \<open>gamma_\<close>, \<open>rho0_\<close>).
\<close>

definition FreeSurfaceIndicationInner_interaction :: "nat \<Rightarrow> double \<Rightarrow> DataDelegate \<Rightarrow> DataDelegate" where
  "FreeSurfaceIndicationInner_interaction index_i dt d =
     (let inner_neighborhood = inner_configuration_DD d ! index_i;
          pos_div = fold (\<lambda>n pos_div.
                        pos_div - table_Real (dW_ijV_j_' inner_neighborhood ! n) *
                                  table_Real (r_ij_' inner_neighborhood ! n))
                      [0..<current_size_' inner_neighborhood] 0
      in write_Real ''pos_div_'' index_i pos_div d)"

definition ColorFunctionGradientInner_interaction ::
  "double \<Rightarrow> double \<Rightarrow> nat \<Rightarrow> double \<Rightarrow> DataDelegate \<Rightarrow> DataDelegate" where
  "ColorFunctionGradientInner_interaction TinyReal threshold_by_dimensions index_i dt d =
     (let inner_neighborhood = inner_configuration_DD d ! index_i;
          gradient =
            (if particles_Real d ''pos_div_'' ! index_i < threshold_by_dimensions
             then fold (\<lambda>n gradient.
                          double_Vecd_minus gradient
                            (double_Vecd_scale (table_Real (dW_ijV_j_' inner_neighborhood ! n))
                               (table_Vecd (e_ij_' inner_neighborhood ! n))))
                    [0..<current_size_' inner_neighborhood] double_Vecd_Zero
             else double_Vecd_Zero)
      in write_Vecd ''surface_norm_'' index_i
           (double_Vecd_divide gradient (double_Vecd_norm gradient + TinyReal))
           (write_Vecd ''color_grad_'' index_i gradient d))"

text \<open>
  \<open>ColorFunctionGradientInterpolationInner::interaction\<close>, which takes its Neighborhood
  by a reference that is not \<open>const\<close>.
\<close>

definition ColorFunctionGradientInterpolationInner_interaction ::
  "double \<Rightarrow> double \<Rightarrow> nat \<Rightarrow> double \<Rightarrow> DataDelegate \<Rightarrow> DataDelegate" where
  "ColorFunctionGradientInterpolationInner_interaction TinyReal threshold_by_dimensions index_i dt d =
     (if particles_int d ''surface_indicator_'' ! index_i = 1
         \<and> particles_Real d ''pos_div_'' ! index_i > threshold_by_dimensions
      then
        (let inner_neighborhood = inner_configuration_DD d ! index_i;
             (grad, total_weight) =
               fold (\<lambda>n (grad, total_weight).
                       let index_j = j_' inner_neighborhood ! n
                       in if particles_int d ''surface_indicator_'' ! index_j = 1
                             \<and> particles_Real d ''pos_div_'' ! index_j < threshold_by_dimensions
                          then
                            (let weight = table_Real (W_ij_' inner_neighborhood ! n) *
                                          particles_Real d ''Vol_'' ! index_j
                             in (double_Vecd_plus grad
                                   (double_Vecd_scale weight (particles_Vecd d ''color_grad_'' ! index_j)),
                                 total_weight + weight))
                          else (grad, total_weight))
                 [0..<current_size_' inner_neighborhood] (double_Vecd_Zero, 0);
             grad_norm = double_Vecd_divide grad (total_weight + TinyReal)
         in write_Vecd ''surface_norm_'' index_i
              (double_Vecd_divide grad_norm (double_Vecd_norm grad_norm + TinyReal))
              (write_Vecd ''color_grad_'' index_i grad_norm d))
      else d)"

text \<open>
  \<open>SurfaceTensionAccelerationInner::interaction\<close>, which takes its Neighborhood by a
  reference that is not \<open>const\<close>.
\<close>

definition SurfaceTensionAccelerationInner_interaction ::
  "double \<Rightarrow> double \<Rightarrow> nat \<Rightarrow> double \<Rightarrow> DataDelegate \<Rightarrow> DataDelegate" where
  "SurfaceTensionAccelerationInner_interaction TinyReal gamma index_i dt d =
     (let n_i = particles_Vecd d ''surface_norm_'' ! index_i;
          (curvature, pos_div) =
            (if particles_int d ''surface_indicator_'' ! index_i = 1
             then
               (let inner_neighborhood = inner_configuration_DD d ! index_i
                in fold (\<lambda>n (curvature, pos_div).
                           let index_j = j_' inner_neighborhood ! n
                           in if particles_int d ''surface_indicator_'' ! index_j = 1
                              then
                                (let n_j = particles_Vecd d ''surface_norm_'' ! index_j;
                                     n_ij = double_Vecd_minus n_i n_j
                                 in (curvature - table_Real (dW_ijV_j_' inner_neighborhood ! n) *
                                       double_Vecd_dot n_ij (table_Vecd (e_ij_' inner_neighborhood ! n)),
                                     pos_div - table_Real (dW_ijV_j_' inner_neighborhood ! n) *
                                       table_Real (r_ij_' inner_neighborhood ! n)))
                              else (curvature, pos_div))
                     [0..<current_size_' inner_neighborhood] (0, 0))
             else (0, 0));
          renormalized_curvature =
            binary64_round (real Dimensions) * curvature / \<bar>pos_div + TinyReal\<bar>;
          acceleration =
            double_Vecd_scale (particles_Real d ''Vol_'' ! index_i)
              (double_Vecd_scale (gamma * renormalized_curvature)
                 (particles_Vecd d ''color_grad_'' ! index_i))
      in write_Vecd ''acc_prior_'' index_i
           (double_Vecd_minus (particles_Vecd d ''acc_prior_'' ! index_i)
              (double_Vecd_divide acceleration (particles_Real d ''mass_'' ! index_i)))
           d)"

text \<open>
  \<open>SpatialTemporalFreeSurfaceIdentification\<close> over \<open>FreeSurfaceIndicationInner\<close>: its
  \<open>checkNearPreviousFreeSurface\<close> and its \<open>interaction\<close>.
\<close>

definition checkNearPreviousFreeSurface :: "double \<Rightarrow> nat \<Rightarrow> DataDelegate \<Rightarrow> DataDelegate" where
  "checkNearPreviousFreeSurface threshold_by_dimensions index_i d =
     (if particles_int d ''PreviousSurfaceIndicator'' ! index_i \<noteq> 1
      then
        (let inner_neighborhood = inner_configuration_DD d ! index_i;
             is_near_previous_surface =
               fold (\<lambda>n is_near_previous_surface.
                       if particles_int d ''PreviousSurfaceIndicator'' ! (j_' inner_neighborhood ! n) = 1
                       then True else is_near_previous_surface)
                 [0..<current_size_' inner_neighborhood] False
         in if is_near_previous_surface then d
            else write_Real ''pos_div_'' index_i (binary64_round 2.0 * threshold_by_dimensions) d)
      else d)"

definition SpatialTemporalFreeSurfaceIdentification_interaction ::
  "double \<Rightarrow> nat \<Rightarrow> double \<Rightarrow> DataDelegate \<Rightarrow> DataDelegate" where
  "SpatialTemporalFreeSurfaceIdentification_interaction threshold_by_dimensions index_i dt d =
     (let d = FreeSurfaceIndicationInner_interaction index_i dt d
      in if particles_Real d ''pos_div_'' ! index_i < threshold_by_dimensions
         then checkNearPreviousFreeSurface threshold_by_dimensions index_i d
         else d)"

text \<open>
  \<open>DensitySummationFreeStream\<close>: \<open>isNearSurface\<close>, whose loop stops at the first neighbor
  on the surface, and \<open>update\<close>. The function \<open>ReinitializedDensity\<close> is not among the
  sources and is a parameter.
\<close>

definition isNearSurface :: "nat \<Rightarrow> DataDelegate \<Rightarrow> bool" where
  "isNearSurface index_i d =
     (if particles_int d ''SurfaceIndicator'' ! index_i \<noteq> 1
      then
        (let inner_neighborhood = inner_configuration_DD d ! index_i
         in fold (\<lambda>n is_near_surface.
                    if is_near_surface then True
                    else particles_int d ''SurfaceIndicator'' ! (j_' inner_neighborhood ! n) = 1)
              [0..<current_size_' inner_neighborhood] False)
      else True)"

definition DensitySummationFreeStream_update ::
  "(double \<Rightarrow> double \<Rightarrow> double \<Rightarrow> double) \<Rightarrow> double \<Rightarrow> nat \<Rightarrow> double \<Rightarrow> DataDelegate \<Rightarrow> DataDelegate" where
  "DensitySummationFreeStream_update ReinitializedDensity rho0 index_i dt d =
     (if particles_Real d ''rho_sum_'' ! index_i < rho0 \<and> isNearSurface index_i d
      then write_Real ''rho_'' index_i
             (ReinitializedDensity (particles_Real d ''rho_sum_'' ! index_i) rho0
                (particles_Real d ''rho_'' ! index_i)) d
      else write_Real ''rho_'' index_i (particles_Real d ''rho_sum_'' ! index_i) d)"

subsection \<open>The viscous force from the fluid\<close>

text \<open>
  \<open>ViscousForceFromFluid::interaction\<close> on the shared data, in doubles: a quotient with a
  zero denominator is a value of the array it is stored in, and the call returns. The
  members \<open>mu_\<close> and \<open>smoothing_length_\<close> hold one constant for each contact body.
\<close>

definition ViscousForceFromFluid_interaction_DD ::
  "double list \<Rightarrow> double list \<Rightarrow> nat \<Rightarrow> double \<Rightarrow> DataDelegate \<Rightarrow> DataDelegate" where
  "ViscousForceFromFluid_interaction_DD mu smoothing_length index_i dt d =
     (let Vol_i = particles_Real d ''Vol_'' ! index_i;
          vel_ave_i = particles_Vecd d ''vel_ave_'' ! index_i;
          force =
            fold (\<lambda>k force.
                    let mu_k = mu ! k;
                        smoothing_length_k = smoothing_length ! k;
                        vel_n_k = (contact_particles_Vecd d ! k) ''vel_'';
                        contact_neighborhood = contact_configuration_DD d ! k ! index_i
                    in fold (\<lambda>n force.
                               let index_j = j_' contact_neighborhood ! n;
                                   vel_derivative =
                                     double_Vecd_divide
                                       (double_Vecd_scale (binary64_round 2.0)
                                          (double_Vecd_minus vel_ave_i (vel_n_k ! index_j)))
                                       (table_Real (r_ij_' contact_neighborhood ! n) +
                                        binary64_round 0.01 * smoothing_length_k)
                               in double_Vecd_plus force
                                    (double_Vecd_scale (table_Real (dW_ijV_j_' contact_neighborhood ! n))
                                       (double_Vecd_scale Vol_i
                                          (double_Vecd_scale (binary64_round 2.0 * mu_k) vel_derivative))))
                         [0..<current_size_' contact_neighborhood] force)
              [0..<length (contact_configuration_DD d)] double_Vecd_Zero
      in write_Vecd ''ViscousForceFromFluid'' index_i force d)"

subsection \<open>The kernels of the coefficient evolution\<close>

text \<open>
  The names under which the kernels of the heat source case look up their arrays, and
  its heat source. The density \<open>rho_\<close> is a member of the particles.
\<close>

definition variable_target_name :: string where
  "variable_target_name = ''Phi_target''"

definition residue_name :: string where
  "residue_name = ''ThermalEquationResidue''"

definition coefficient_name :: string where
  "coefficient_name = ''ThermalDiffusivity''"

definition change_rate_name :: string where
  "change_rate_name = ''DiffusionCoefficientChangeRate''"

definition heat_source :: double where
  "heat_source = binary64_round 100.0"

definition CoefficientEvolutionExplicitTem_interaction :: "nat \<Rightarrow> double \<Rightarrow> DataDelegate \<Rightarrow> DataDelegate" where
  "CoefficientEvolutionExplicitTem_interaction index_i dt d =
     (let variable_i = particles_Real d variable_target_name ! index_i;
          eta_i = particles_Real d coefficient_name ! index_i;
          inner_neighborhood = inner_configuration_DD d ! index_i;
          change_rate =
            fold (\<lambda>n change_rate.
                    let b_ij = binary64_round 2.0 * table_Real (dW_ijV_j_' inner_neighborhood ! n) /
                               table_Real (r_ij_' inner_neighborhood ! n);
                        index_j = j_' inner_neighborhood ! n;
                        variable_diff = variable_i - particles_Real d variable_target_name ! index_j;
                        variable_diff_abs = double_SMAX \<bar>variable_diff\<bar> (binary64_round 5.0);
                        coefficient_ave =
                          binary64_round 0.5 * (eta_i + particles_Real d coefficient_name ! index_j);
                        coefficient_diff =
                          binary64_round 0.5 * (eta_i - particles_Real d coefficient_name ! index_j)
                    in change_rate +
                       b_ij * (coefficient_ave * variable_diff + coefficient_diff * variable_diff_abs))
              [0..<current_size_' inner_neighborhood]
              (heat_source - particles_Real d residue_name ! index_i)
      in write_Real change_rate_name index_i (change_rate / particles_Real d ''rho_'' ! index_i) d)"

text \<open>
  \<open>CoefficientEvolutionExplicitTem::update\<close> on the shared data: the method of the class
  above, on the arrays that its members \<open>change_rate_\<close> and \<open>eta_\<close> refer to.
\<close>

definition CoefficientEvolutionExplicitTem_update_DD ::
  "double \<Rightarrow> nat \<Rightarrow> double \<Rightarrow> DataDelegate \<Rightarrow> DataDelegate" where
  "CoefficientEvolutionExplicitTem_update_DD eps index_i dt d =
     (let s = CoefficientEvolutionExplicitTem_update eps index_i dt
                \<lparr>change_rate_' = particles_Real d change_rate_name,
                 eta_' = particles_Real d coefficient_name\<rparr>
      in d\<lparr>particles_Real :=
             (particles_Real d)(change_rate_name := change_rate_' s, coefficient_name := eta_' s)\<rparr>)"

text \<open>
  \<open>CoefficientEvolutionWithWallExplicitTem::interaction\<close>; \<open>wall_variable_[k]\<close> is the
  array of contact body \<open>k\<close> under the name given to the constructor.
\<close>

definition CoefficientEvolutionWithWallExplicitTem_interaction ::
  "string \<Rightarrow> nat \<Rightarrow> double \<Rightarrow> DataDelegate \<Rightarrow> DataDelegate" where
  "CoefficientEvolutionWithWallExplicitTem_interaction variable_name index_i dt d =
     (let d = CoefficientEvolutionExplicitTem_interaction index_i dt d;
          variable_i = particles_Real d variable_target_name ! index_i;
          change_rate =
            fold (\<lambda>k change_rate.
                    let variable_k = (contact_particles_Real d ! k) variable_name;
                        contact_neighborhood = contact_configuration_DD d ! k ! index_i
                    in fold (\<lambda>n change_rate.
                               let b_ij = binary64_round 2.0 *
                                          table_Real (dW_ijV_j_' contact_neighborhood ! n) /
                                          table_Real (r_ij_' contact_neighborhood ! n);
                                   index_j = j_' contact_neighborhood ! n;
                                   variable_diff = variable_i - variable_k ! index_j
                               in change_rate +
                                  b_ij * particles_Real d coefficient_name ! index_i * variable_diff)
                         [0..<current_size_' contact_neighborhood] change_rate)
              [0..<length (contact_configuration_DD d)] 0
      in write_Real change_rate_name index_i
           (particles_Real d change_rate_name ! index_i +
            change_rate / particles_Real d ''rho_'' ! index_i) d)"

text \<open>
  \<open>CoefficientEvolutionImplicit\<close>. The struct \<open>ErrorAndParameters\<close> is not among the
  sources; it has the three members that the kernel uses, which start at zero.
  \<open>computeErrorAndParameters\<close> and \<open>updateStatesByError\<close> take their Neighborhood by a
  reference that is not \<open>const\<close>, and \<open>updateStatesByError\<close> writes the coefficient of the
  neighbors as well.
\<close>

record ErrorAndParameters =
  error_' :: double
  a_' :: double
  c_' :: double

definition CoefficientEvolutionImplicit_computeErrorAndParameters ::
  "string \<Rightarrow> nat \<Rightarrow> double \<Rightarrow> DataDelegate \<Rightarrow> ErrorAndParameters" where
  "CoefficientEvolutionImplicit_computeErrorAndParameters variable_name index_i dt d =
     (let inner_neighborhood = inner_configuration_DD d ! index_i;
          variable = particles_Real d variable_name;
          eta = particles_Real d coefficient_name;
          error_and_parameters =
            fold (\<lambda>n error_and_parameters.
                    let b_ij = binary64_round 2.0 * table_Real (dW_ijV_j_' inner_neighborhood ! n) * dt /
                               table_Real (r_ij_' inner_neighborhood ! n);
                        index_j = j_' inner_neighborhood ! n;
                        variable_diff = variable ! index_i - variable ! index_j;
                        variable_diff_abs = \<bar>variable_diff\<bar>;
                        coefficient_ave = binary64_round 0.5 * (eta ! index_i + eta ! index_j);
                        coefficient_diff = binary64_round 0.5 * (eta ! index_i - eta ! index_j)
                    in \<lparr>error_' = error_' error_and_parameters -
                          b_ij * (coefficient_ave * variable_diff + coefficient_diff * variable_diff_abs),
                        a_' = a_' error_and_parameters +
                          b_ij * (binary64_round 0.5 * variable_diff +
                                  binary64_round 0.5 * variable_diff_abs),
                        c_' = c_' error_and_parameters +
                          (b_ij * binary64_round 0.5 * variable_diff -
                             binary64_round 0.5 * variable_diff_abs) *
                          (b_ij * binary64_round 0.5 * variable_diff -
                             binary64_round (- 0.5) * variable_diff_abs)\<rparr>)
              [0..<current_size_' inner_neighborhood] \<lparr>error_' = 0, a_' = 0, c_' = 0\<rparr>
      in error_and_parameters
           \<lparr>error_' := error_' error_and_parameters - heat_source * dt +
                        particles_Real d residue_name ! index_i * dt\<rparr>)"

definition CoefficientEvolutionImplicit_updateStatesByError ::
  "double \<Rightarrow> string \<Rightarrow> nat \<Rightarrow> double \<Rightarrow> ErrorAndParameters \<Rightarrow> DataDelegate \<Rightarrow> DataDelegate" where
  "CoefficientEvolutionImplicit_updateStatesByError TinyReal variable_name index_i dt
       error_and_parameters d =
     (let parameter_l = a_' error_and_parameters * a_' error_and_parameters + c_' error_and_parameters;
          parameter_k = error_' error_and_parameters / (parameter_l + TinyReal);
          d = write_Real coefficient_name index_i
                (particles_Real d coefficient_name ! index_i + a_' error_and_parameters * parameter_k) d;
          d = (if particles_Real d coefficient_name ! index_i < binary64_round 0.001
               then write_Real coefficient_name index_i (binary64_round 0.001) d else d);
          inner_neighborhood = inner_configuration_DD d ! index_i
      in fold (\<lambda>n d.
                 let b_ij = binary64_round 2.0 * table_Real (dW_ijV_j_' inner_neighborhood ! n) * dt /
                            table_Real (r_ij_' inner_neighborhood ! n);
                     index_j = j_' inner_neighborhood ! n;
                     variable_diff = particles_Real d variable_name ! index_i -
                                     particles_Real d variable_name ! index_j;
                     d = write_Real coefficient_name index_j
                           (particles_Real d coefficient_name ! index_j +
                            (b_ij * binary64_round 0.5 * variable_diff) * parameter_k) d
                 in if particles_Real d coefficient_name ! index_j < binary64_round 0.001
                    then write_Real coefficient_name index_j (binary64_round 0.001) d else d)
           [0..<current_size_' inner_neighborhood] d)"

definition CoefficientEvolutionImplicit_interaction ::
  "double \<Rightarrow> string \<Rightarrow> nat \<Rightarrow> double \<Rightarrow> DataDelegate \<Rightarrow> DataDelegate" where
  "CoefficientEvolutionImplicit_interaction TinyReal variable_name index_i dt d =
     CoefficientEvolutionImplicit_updateStatesByError TinyReal variable_name index_i dt
       (CoefficientEvolutionImplicit_computeErrorAndParameters variable_name index_i dt d) d"

text \<open>
  \<open>CoefficientEvolutionWithWallImplicit\<close>: its \<open>computeErrorAndParameters\<close>, and the
  \<open>interaction\<close> it inherits, which calls it.
\<close>

definition CoefficientEvolutionWithWallImplicit_computeErrorAndParameters ::
  "string \<Rightarrow> nat \<Rightarrow> double \<Rightarrow> DataDelegate \<Rightarrow> ErrorAndParameters" where
  "CoefficientEvolutionWithWallImplicit_computeErrorAndParameters variable_name index_i dt d =
     fold (\<lambda>k error_and_parameters.
             let variable_k = (contact_particles_Real d ! k) variable_name;
                 contact_neighborhood = contact_configuration_DD d ! k ! index_i
             in fold (\<lambda>n error_and_parameters.
                        let b_ij = binary64_round 2.0 *
                                   table_Real (dW_ijV_j_' contact_neighborhood ! n) /
                                   table_Real (r_ij_' contact_neighborhood ! n);
                            index_j = j_' contact_neighborhood ! n;
                            variable_diff = particles_Real d variable_name ! index_i - variable_k ! index_j
                        in error_and_parameters
                             \<lparr>error_' := error_' error_and_parameters -
                                b_ij * particles_Real d coefficient_name ! index_i * variable_diff,
                              a_' := a_' error_and_parameters + b_ij * variable_diff\<rparr>)
                  [0..<current_size_' contact_neighborhood] error_and_parameters)
       [0..<length (contact_configuration_DD d)]
       (CoefficientEvolutionImplicit_computeErrorAndParameters variable_name index_i dt d)"

definition CoefficientEvolutionWithWallImplicit_interaction ::
  "double \<Rightarrow> string \<Rightarrow> nat \<Rightarrow> double \<Rightarrow> DataDelegate \<Rightarrow> DataDelegate" where
  "CoefficientEvolutionWithWallImplicit_interaction TinyReal variable_name index_i dt d =
     CoefficientEvolutionImplicit_updateStatesByError TinyReal variable_name index_i dt
       (CoefficientEvolutionWithWallImplicit_computeErrorAndParameters variable_name index_i dt d) d"

subsection \<open>Smoothing and Laplacians\<close>

text \<open>
  \<open>ParticleSmoothing\<close> on the shared data, with \<open>VariableType = Real\<close> and with
  \<open>VariableType = Vecd\<close>: the array \<open>smoothed_\<close> is the one named \<open>variable_name\<close>, and
  \<open>temp_\<close> is registered under \<open>variable_name + "_temp"\<close>. With the name of the positions,
  \<open>update\<close> moves the particles.
\<close>

definition ParticleSmoothing_Real_interaction ::
  "double \<Rightarrow> double \<Rightarrow> string \<Rightarrow> nat \<Rightarrow> double \<Rightarrow> DataDelegate \<Rightarrow> DataDelegate" where
  "ParticleSmoothing_Real_interaction TinyReal W0 variable_name index_i dt d =
     (let smoothed = particles_Real d variable_name;
          inner_neighborhood = inner_configuration_DD d ! index_i;
          (summation, weight) =
            fold (\<lambda>n (summation, weight).
                    let index_j = j_' inner_neighborhood ! n
                    in (summation + table_Real (W_ij_' inner_neighborhood ! n) * smoothed ! index_j,
                        weight + table_Real (W_ij_' inner_neighborhood ! n)))
              [0..<current_size_' inner_neighborhood] (W0 * smoothed ! index_i, W0)
      in write_Real (variable_name @ ''_temp'') index_i (summation / (weight + TinyReal)) d)"

definition ParticleSmoothing_Real_update :: "string \<Rightarrow> nat \<Rightarrow> double \<Rightarrow> DataDelegate \<Rightarrow> DataDelegate" where
  "ParticleSmoothing_Real_update variable_name index_i dt d =
     write_Real variable_name index_i (particles_Real d (variable_name @ ''_temp'') ! index_i) d"

definition ParticleSmoothing_Vecd_interaction ::
  "double \<Rightarrow> double \<Rightarrow> string \<Rightarrow> nat \<Rightarrow> double \<Rightarrow> DataDelegate \<Rightarrow> DataDelegate" where
  "ParticleSmoothing_Vecd_interaction TinyReal W0 variable_name index_i dt d =
     (let smoothed = particles_Vecd d variable_name;
          inner_neighborhood = inner_configuration_DD d ! index_i;
          (summation, weight) =
            fold (\<lambda>n (summation, weight).
                    let index_j = j_' inner_neighborhood ! n
                    in (double_Vecd_plus summation
                          (double_Vecd_scale (table_Real (W_ij_' inner_neighborhood ! n)) (smoothed ! index_j)),
                        weight + table_Real (W_ij_' inner_neighborhood ! n)))
              [0..<current_size_' inner_neighborhood] (double_Vecd_scale W0 (smoothed ! index_i), W0)
      in write_Vecd (variable_name @ ''_temp'') index_i
           (double_Vecd_divide summation (weight + TinyReal)) d)"

definition ParticleSmoothing_Vecd_update :: "string \<Rightarrow> nat \<Rightarrow> double \<Rightarrow> DataDelegate \<Rightarrow> DataDelegate" where
  "ParticleSmoothing_Vecd_update variable_name index_i dt d =
     write_Vecd variable_name index_i (particles_Vecd d (variable_name @ ''_temp'') ! index_i) d"

text \<open>
  \<open>LaplacianInner::loopNeighbors\<close> and \<open>LaplacianContact::loopNeighbors\<close> with
  \<open>DataType = Real\<close> on the shared data, in doubles: a quotient with a zero denominator
  is a value of the sum, and the call returns. The coefficient function may read the data.
  \<open>LaplacianContact\<close> adds the running sum to \<open>out_variable_[index_i]\<close> after each contact
  body.
\<close>

definition LaplacianInner_loopNeighbors_DD ::
  "string \<Rightarrow> string \<Rightarrow> (DataDelegate \<Rightarrow> nat \<Rightarrow> nat \<Rightarrow> double) \<Rightarrow> nat \<Rightarrow> DataDelegate \<Rightarrow> DataDelegate" where
  "LaplacianInner_loopNeighbors_DD in_variable_name out_variable_name coefficient index_i d =
     (let neighborhood = inner_configuration_DD d ! index_i;
          in_variable = particles_Real d in_variable_name;
          total =
            fold (\<lambda>n total.
                    let index_j = j_' neighborhood ! n
                    in total +
                       binary64_round 2.0 * coefficient d index_i index_j *
                       (in_variable ! index_i - in_variable ! index_j) *
                       table_Real (dW_ijV_j_' neighborhood ! n) / table_Real (r_ij_' neighborhood ! n))
              [0..<current_size_' neighborhood] 0
      in write_Real out_variable_name index_i total d)"

definition LaplacianContact_loopNeighbors ::
  "string \<Rightarrow> string \<Rightarrow> (DataDelegate \<Rightarrow> nat \<Rightarrow> nat \<Rightarrow> double) \<Rightarrow> nat \<Rightarrow> DataDelegate \<Rightarrow> DataDelegate" where
  "LaplacianContact_loopNeighbors in_variable_name out_variable_name coefficient index_i d =
     snd (fold (\<lambda>k (total, d).
                  let neighborhood = contact_configuration_DD d ! k ! index_i;
                      in_variable_k = (contact_particles_Real d ! k) in_variable_name;
                      total =
                        fold (\<lambda>n total.
                                let index_j = j_' neighborhood ! n
                                in total +
                                   binary64_round 2.0 * coefficient d index_i index_j *
                                   (particles_Real d in_variable_name ! index_i - in_variable_k ! index_j) *
                                   table_Real (dW_ijV_j_' neighborhood ! n) /
                                   table_Real (r_ij_' neighborhood ! n))
                          [0..<current_size_' neighborhood] total
                  in (total,
                      write_Real out_variable_name index_i
                        (particles_Real d out_variable_name ! index_i + total) d))
            [0..<length (contact_configuration_DD d)] (0, d))"

subsection \<open>Calls of the kernels\<close>

text \<open>
  A call of a method of a kernel for one particle, with the constants of the kernel
  object, and the run of a call on the shared data. A dynamics runs a sequence of such
  calls: \<open>fold run_kernel_call calls\<close>.
\<close>

datatype kernel_call =
    Call_FreeSurfaceIndicationInner_interaction nat double
  | Call_ColorFunctionGradientInner_interaction double double nat double
  | Call_ColorFunctionGradientInterpolationInner_interaction double double nat double
  | Call_SurfaceTensionAccelerationInner_interaction double double nat double
  | Call_SpatialTemporalFreeSurfaceIdentification_interaction double nat double
  | Call_DensitySummationFreeStream_update "double \<Rightarrow> double \<Rightarrow> double \<Rightarrow> double" double nat double
  | Call_ViscousForceFromFluid_interaction "double list" "double list" nat double
  | Call_CoefficientEvolutionExplicitTem_interaction nat double
  | Call_CoefficientEvolutionExplicitTem_update double nat double
  | Call_CoefficientEvolutionWithWallExplicitTem_interaction string nat double
  | Call_CoefficientEvolutionImplicit_interaction double string nat double
  | Call_CoefficientEvolutionWithWallImplicit_interaction double string nat double
  | Call_ParticleSmoothing_Real_interaction double double string nat double
  | Call_ParticleSmoothing_Real_update string nat double
  | Call_ParticleSmoothing_Vecd_interaction double double string nat double
  | Call_ParticleSmoothing_Vecd_update string nat double
  | Call_LaplacianInner_loopNeighbors string string "DataDelegate \<Rightarrow> nat \<Rightarrow> nat \<Rightarrow> double" nat
  | Call_LaplacianContact_loopNeighbors string string "DataDelegate \<Rightarrow> nat \<Rightarrow> nat \<Rightarrow> double" nat

fun run_kernel_call :: "kernel_call \<Rightarrow> DataDelegate \<Rightarrow> DataDelegate" where
  "run_kernel_call (Call_FreeSurfaceIndicationInner_interaction index_i dt) d =
     FreeSurfaceIndicationInner_interaction index_i dt d"
| "run_kernel_call (Call_ColorFunctionGradientInner_interaction TinyReal threshold index_i dt) d =
     ColorFunctionGradientInner_interaction TinyReal threshold index_i dt d"
| "run_kernel_call (Call_ColorFunctionGradientInterpolationInner_interaction TinyReal threshold index_i dt) d =
     ColorFunctionGradientInterpolationInner_interaction TinyReal threshold index_i dt d"
| "run_kernel_call (Call_SurfaceTensionAccelerationInner_interaction TinyReal gamma index_i dt) d =
     SurfaceTensionAccelerationInner_interaction TinyReal gamma index_i dt d"
| "run_kernel_call (Call_SpatialTemporalFreeSurfaceIdentification_interaction threshold index_i dt) d =
     SpatialTemporalFreeSurfaceIdentification_interaction threshold index_i dt d"
| "run_kernel_call (Call_DensitySummationFreeStream_update ReinitializedDensity rho0 index_i dt) d =
     DensitySummationFreeStream_update ReinitializedDensity rho0 index_i dt d"
| "run_kernel_call (Call_ViscousForceFromFluid_interaction mu smoothing_length index_i dt) d =
     ViscousForceFromFluid_interaction_DD mu smoothing_length index_i dt d"
| "run_kernel_call (Call_CoefficientEvolutionExplicitTem_interaction index_i dt) d =
     CoefficientEvolutionExplicitTem_interaction index_i dt d"
| "run_kernel_call (Call_CoefficientEvolutionExplicitTem_update eps index_i dt) d =
     CoefficientEvolutionExplicitTem_update_DD eps index_i dt d"
| "run_kernel_call (Call_CoefficientEvolutionWithWallExplicitTem_interaction variable_name index_i dt) d =
     CoefficientEvolutionWithWallExplicitTem_interaction variable_name index_i dt d"
| "run_kernel_call (Call_CoefficientEvolutionImplicit_interaction TinyReal variable_name index_i dt) d =
     CoefficientEvolutionImplicit_interaction TinyReal variable_name index_i dt d"
| "run_kernel_call (Call_CoefficientEvolutionWithWallImplicit_interaction TinyReal variable_name index_i dt) d =
     CoefficientEvolutionWithWallImplicit_interaction TinyReal variable_name index_i dt d"
| "run_kernel_call (Call_ParticleSmoothing_Real_interaction TinyReal W0 variable_name index_i dt) d =
     ParticleSmoothing_Real_interaction TinyReal W0 variable_name index_i dt d"
| "run_kernel_call (Call_ParticleSmoothing_Real_update variable_name index_i dt) d =
     ParticleSmoothing_Real_update variable_name index_i dt d"
| "run_kernel_call (Call_ParticleSmoothing_Vecd_interaction TinyReal W0 variable_name index_i dt) d =
     ParticleSmoothing_Vecd_interaction TinyReal W0 variable_name index_i dt d"
| "run_kernel_call (Call_ParticleSmoothing_Vecd_update variable_name index_i dt) d =
     ParticleSmoothing_Vecd_update variable_name index_i dt d"
| "run_kernel_call (Call_LaplacianInner_loopNeighbors in_variable_name out_variable_name coefficient index_i) d =
     LaplacianInner_loopNeighbors_DD in_variable_name out_variable_name coefficient index_i d"
| "run_kernel_call (Call_LaplacianContact_loopNeighbors in_variable_name out_variable_name coefficient index_i) d =
     LaplacianContact_loopNeighbors in_variable_name out_variable_name coefficient index_i d"

text \<open>
  The data of a kernel that is built on an inner relation: its \<open>inner_configuration_\<close> is
  the table of the relation.
\<close>

definition on_relation :: "InnerRelation \<Rightarrow> DataDelegate \<Rightarrow> DataDelegate" where
  "on_relation rel d = d\<lparr>inner_configuration_DD := inner_configuration_' rel\<rparr>"

text \<open>
  Two particles at \<open>(0, 0, 0)\<close> and \<open>(1/2, 0, 0)\<close> with the table \<open>pair_configuration\<close>, and
  one pass of \<open>ParticleSmoothing\<close> over their positions: \<open>interaction\<close> for both particles,
  then \<open>update\<close> for both. The constant \<open>TinyReal\<close> is \<open>2 ^ (- 65)\<close>.
\<close>

definition pair_data :: DataDelegate where
  "pair_data =
     \<lparr>particles_Real = (\<lambda>name. []),
      particles_Vecd = (\<lambda>name. [(0, 0, 0), (0, 0, 0)])
        (''Position'' := [(0, 0, 0), (binary64_round 0.5, 0, 0)]),
      particles_int = (\<lambda>name. []),
      inner_configuration_DD = pair_configuration,
      contact_configuration_DD = [],
      contact_particles_Real = [],
      contact_particles_Vecd = []\<rparr>"

definition smooth_positions :: "kernel_call list" where
  "smooth_positions =
     [Call_ParticleSmoothing_Vecd_interaction (Finite (pow2 (- 65))) 1 ''Position'' 0 0,
      Call_ParticleSmoothing_Vecd_interaction (Finite (pow2 (- 65))) 1 ''Position'' 1 0,
      Call_ParticleSmoothing_Vecd_update ''Position'' 0 0,
      Call_ParticleSmoothing_Vecd_update ''Position'' 1 0]"

text \<open>
  Two coincident particles with the values 1 and 2 of the variable \<open>Phi\<close>, and a call of
  \<open>LaplacianInner::loopNeighbors\<close> for the first of them with the coefficient 1, writing to
  the residue.
\<close>

definition coincident_data :: DataDelegate where
  "coincident_data =
     \<lparr>particles_Real = (\<lambda>name. [0, 0])(''Phi'' := [binary64_round 1.0, binary64_round 2.0]),
      particles_Vecd = (\<lambda>name. []),
      particles_int = (\<lambda>name. []),
      inner_configuration_DD = [coincident_neighborhood, coincident_neighborhood],
      contact_configuration_DD = [],
      contact_particles_Real = [],
      contact_particles_Vecd = []\<rparr>"

definition coincident_laplacian :: "kernel_call list" where
  "coincident_laplacian =
     [Call_LaplacianInner_loopNeighbors ''Phi'' residue_name (\<lambda>d index_i index_j. 1) 0]"

text \<open>
  The three particles of the scenario of the spec after a rebuild, with the values 1, 2
  and 3 of the variable \<open>Phi\<close>, and calls of three kernels on them.
\<close>

definition scenario_data :: DataDelegate where
  "scenario_data =
     on_relation (rebuild scenario_kernel (1 / 1000) (\<lambda>index_i. 1) scenario_relation)
       \<lparr>particles_Real = (\<lambda>name. [0, 0, 0])
          (''Phi'' := [binary64_round 1.0, binary64_round 2.0, binary64_round 3.0],
           coefficient_name := [1, 1, 1]),
        particles_Vecd = (\<lambda>name. [(0, 0, 0), (0, 0, 0), (0, 0, 0)])
          (''Position'' := map table_Vecd (pos_' scenario_relation)),
        particles_int = (\<lambda>name. [0, 0, 0]),
        inner_configuration_DD = [],
        contact_configuration_DD = [],
        contact_particles_Real = [],
        contact_particles_Vecd = []\<rparr>"

definition scenario_calls :: "kernel_call list" where
  "scenario_calls =
     [Call_LaplacianInner_loopNeighbors ''Phi'' residue_name (\<lambda>d index_i index_j. 1) 0,
      Call_CoefficientEvolutionImplicit_interaction (Finite (pow2 (- 65))) ''Phi'' 1 1,
      Call_ParticleSmoothing_Vecd_interaction (Finite (pow2 (- 65))) 1 ''Position'' 2 0,
      Call_ParticleSmoothing_Vecd_update ''Position'' 2 0]"

text \<open>Auxiliary notion for the proofs: the tables that the kernels of a body refer to.\<close>

definition tables :: "DataDelegate \<Rightarrow> ParticleConfiguration \<times> ParticleConfiguration list" where
  "tables d = (inner_configuration_DD d, contact_configuration_DD d)"

section \<open>Properties of the neighbor search\<close>

lemma write_slot_splice:
  assumes "n \<le> length xs"
  shows "write_slot (splice_at n vs xs) (n + length vs) v = splice_at n (vs @ [v]) xs"
proof (cases "n + length vs < length xs")
  case True
  then have len: "length (take n xs @ vs) = n + length vs"
    using assms by simp
  have "drop (n + length vs) xs = xs ! (n + length vs) # drop (Suc (n + length vs)) xs"
    using True by (simp add: Cons_nth_drop_Suc)
  then have "(take n xs @ vs @ drop (n + length vs) xs)[n + length vs := v]
      = take n xs @ vs @ v # drop (Suc (n + length vs)) xs"
    using len by (metis append.assoc list_update_length)
  moreover have "n + length vs < length (splice_at n vs xs)"
    using True assms by (simp add: splice_at_def)
  ultimately show ?thesis
    by (simp add: write_slot_def splice_at_def)
next
  case False
  then have "drop (n + length vs) xs = []" and "drop (Suc (n + length vs)) xs = []"
    by simp_all
  moreover have "\<not> n + length vs < length (splice_at n vs xs)"
    using False assms by (simp add: splice_at_def)
  ultimately show ?thesis
    by (simp add: write_slot_def splice_at_def)
qed

lemma splice_at_Nil: "splice_at n [] xs = xs"
  by (simp add: splice_at_def)

lemma splice_at_idem: "splice_at 0 vs (splice_at 0 vs xs) = splice_at 0 vs xs"
  by (simp add: splice_at_def)

lemma fold_NeighborRelationInner:
  assumes "current_size_' nb \<le> length (j_' nb)"
    and "current_size_' nb \<le> length (r_ij_' nb)"
    and "current_size_' nb \<le> length (dW_ijV_j_' nb)"
    and "current_size_' nb \<le> length (W_ij_' nb)"
    and "current_size_' nb \<le> length (e_ij_' nb)"
  shows "fold (\<lambda>index_j nb'. NeighborRelationInner kern tiny pos Vol nb' pos_i index_i index_j) cs nb =
     (let vs = filter (within_cutoff kern pos pos_i) cs;
          n = current_size_' nb;
          dist = (\<lambda>index_j. vec_norm (vec_minus pos_i (pos ! index_j)))
      in nb\<lparr>j_' := splice_at n vs (j_' nb),
            r_ij_' := splice_at n (map dist vs) (r_ij_' nb),
            dW_ijV_j_' := splice_at n (map (\<lambda>index_j. kernel_dW kern (dist index_j) * Vol ! index_j) vs) (dW_ijV_j_' nb),
            W_ij_' := splice_at n (map (\<lambda>index_j. kernel_W kern (dist index_j)) vs) (W_ij_' nb),
            e_ij_' := splice_at n (map (\<lambda>index_j. vec_scale (1 / (dist index_j + tiny))
                        (vec_minus pos_i (pos ! index_j))) vs) (e_ij_' nb),
            current_size_' := n + length vs\<rparr>)"
proof (induction cs rule: rev_induct)
  case Nil
  show ?case by (simp add: splice_at_Nil)
next
  case (snoc c cs)
  define step where "step = (\<lambda>index_j nb'. NeighborRelationInner kern tiny pos Vol nb' pos_i index_i index_j)"
  define mid where "mid = fold step cs nb"
  have mid_eq: "mid =
     (let vs = filter (within_cutoff kern pos pos_i) cs;
          n = current_size_' nb;
          dist = (\<lambda>index_j. vec_norm (vec_minus pos_i (pos ! index_j)))
      in nb\<lparr>j_' := splice_at n vs (j_' nb),
            r_ij_' := splice_at n (map dist vs) (r_ij_' nb),
            dW_ijV_j_' := splice_at n (map (\<lambda>index_j. kernel_dW kern (dist index_j) * Vol ! index_j) vs) (dW_ijV_j_' nb),
            W_ij_' := splice_at n (map (\<lambda>index_j. kernel_W kern (dist index_j)) vs) (W_ij_' nb),
            e_ij_' := splice_at n (map (\<lambda>index_j. vec_scale (1 / (dist index_j + tiny))
                        (vec_minus pos_i (pos ! index_j))) vs) (e_ij_' nb),
            current_size_' := n + length vs\<rparr>)"
    unfolding mid_def step_def by (rule snoc.IH)
  have unfold: "fold step (cs @ [c]) nb = step c mid"
    by (simp add: mid_def)
  have "step c mid =
     (let vs = filter (within_cutoff kern pos pos_i) (cs @ [c]);
          n = current_size_' nb;
          dist = (\<lambda>index_j. vec_norm (vec_minus pos_i (pos ! index_j)))
      in nb\<lparr>j_' := splice_at n vs (j_' nb),
            r_ij_' := splice_at n (map dist vs) (r_ij_' nb),
            dW_ijV_j_' := splice_at n (map (\<lambda>index_j. kernel_dW kern (dist index_j) * Vol ! index_j) vs) (dW_ijV_j_' nb),
            W_ij_' := splice_at n (map (\<lambda>index_j. kernel_W kern (dist index_j)) vs) (W_ij_' nb),
            e_ij_' := splice_at n (map (\<lambda>index_j. vec_scale (1 / (dist index_j + tiny))
                        (vec_minus pos_i (pos ! index_j))) vs) (e_ij_' nb),
            current_size_' := n + length vs\<rparr>)"
  proof (cases "within_cutoff kern pos pos_i c")
    case True
    then have test: "vec_norm (vec_minus pos_i (pos ! c)) \<le> CutOffRadius kern"
      by (simp add: within_cutoff_def)
    show ?thesis
      using assms True test
      by (simp add: mid_eq step_def NeighborRelationInner_def write_record_def Let_def
          write_slot_splice [where vs = "map f vs" for f vs, simplified]
          write_slot_splice)
  next
    case False
    then have test: "\<not> vec_norm (vec_minus pos_i (pos ! c)) \<le> CutOffRadius kern"
      by (simp add: within_cutoff_def)
    show ?thesis
      using False test by (simp add: mid_eq step_def NeighborRelationInner_def Let_def)
  qed
  with unfold show ?case
    unfolding step_def by simp
qed


lemma fold_over_cells:
  "fold (\<lambda>cell. fold g (content cell)) cells nb = fold g (concat (map content cells)) nb"
  by (induction cells arbitrary: nb) simp_all

lemma searchNeighborsByParticles_Cons:
  "searchNeighborsByParticles cll \<lparr>particle_index = x # xs, base_particles_pos_' = pos\<rparr> cfg depth f =
   searchNeighborsByParticles cll \<lparr>particle_index = xs, base_particles_pos_' = pos\<rparr>
     (cfg[x := fold (\<lambda>ld nb. f nb (pos ! x) x ld) (particle_candidates cll pos depth x) (cfg ! x)])
     depth f"
  by (simp add: searchNeighborsByParticles_def Let_def particle_candidates_def fold_over_cells)

lemma searchNeighborsByParticles_Nil:
  "searchNeighborsByParticles cll \<lparr>particle_index = [], base_particles_pos_' = pos\<rparr> cfg depth f = cfg"
  by (simp add: searchNeighborsByParticles_def)

lemma length_searchNeighborsByParticles:
  "length (searchNeighborsByParticles cll \<lparr>particle_index = xs, base_particles_pos_' = pos\<rparr> cfg depth f)
     = length cfg"
  by (induction xs arbitrary: cfg)
     (simp_all add: searchNeighborsByParticles_Nil searchNeighborsByParticles_Cons)

lemma nth_searchNeighborsByParticles:
  assumes "distinct xs" and "i < length cfg"
  shows "searchNeighborsByParticles cll \<lparr>particle_index = xs, base_particles_pos_' = pos\<rparr> cfg depth f ! i =
     (if i \<in> set xs
      then fold (\<lambda>ld nb. f nb (pos ! i) i ld) (particle_candidates cll pos depth i) (cfg ! i)
      else cfg ! i)"
  using assms
proof (induction xs arbitrary: cfg)
  case Nil
  then show ?case by (simp add: searchNeighborsByParticles_Nil)
next
  case (Cons x xs)
  let ?cfg = "cfg[x := fold (\<lambda>ld nb. f nb (pos ! x) x ld) (particle_candidates cll pos depth x) (cfg ! x)]"
  have len: "i < length ?cfg"
    using Cons.prems by simp
  have dist: "distinct xs" and fresh: "x \<notin> set xs"
    using Cons.prems by simp_all
  note step = Cons.IH [OF dist len]
  show ?case
  proof (cases "i = x")
    case True
    then show ?thesis
      using fresh Cons.prems step by (simp add: searchNeighborsByParticles_Cons)
  next
    case False
    then show ?thesis
      using step by (simp add: searchNeighborsByParticles_Cons)
  qed
qed


lemma cell_of_position_cong:
  assumes "mesh_lower_bound_' a = mesh_lower_bound_' b"
    and "grid_spacing_' a = grid_spacing_' b"
    and "number_of_cells_' a = number_of_cells_' b"
  shows "cell_of_position a p = cell_of_position b p"
    and "CellIndexFromPosition a p = CellIndexFromPosition b p"
  using assms by (simp_all add: cell_of_position_def CellIndexFromPosition_def)

lemma insert_into_cell_mesh:
  "mesh_lower_bound_' (insert_into_cell pos i cll) = mesh_lower_bound_' cll"
  "grid_spacing_' (insert_into_cell pos i cll) = grid_spacing_' cll"
  "number_of_cells_' (insert_into_cell pos i cll) = number_of_cells_' cll"
  by (simp_all add: insert_into_cell_def Let_def)

lemma fold_insert_into_cell_mesh:
  "mesh_lower_bound_' (fold (insert_into_cell pos) xs cll) = mesh_lower_bound_' cll"
  "grid_spacing_' (fold (insert_into_cell pos) xs cll) = grid_spacing_' cll"
  "number_of_cells_' (fold (insert_into_cell pos) xs cll) = number_of_cells_' cll"
  by (induction xs arbitrary: cll) (simp_all add: insert_into_cell_mesh)

lemma fold_insert_into_cell_lists:
  "cell_data_lists_' (fold (insert_into_cell pos) xs cll) cell =
     cell_data_lists_' cll cell @ filter (\<lambda>i. cell_of_position cll (pos ! i) = cell) xs"
proof (induction xs arbitrary: cll)
  case Nil
  show ?case by simp
next
  case (Cons x xs)
  have same: "cell_of_position (insert_into_cell pos x cll) p = cell_of_position cll p" for p
    by (rule cell_of_position_cong) (simp_all add: insert_into_cell_mesh)
  show ?case
    by (simp add: Cons.IH same) (simp add: insert_into_cell_def Let_def)
qed

lemma UpdateCellLists_mesh:
  "mesh_lower_bound_' (UpdateCellLists pos cll) = mesh_lower_bound_' cll"
  "grid_spacing_' (UpdateCellLists pos cll) = grid_spacing_' cll"
  "number_of_cells_' (UpdateCellLists pos cll) = number_of_cells_' cll"
  by (simp_all add: UpdateCellLists_def fold_insert_into_cell_mesh)

lemma UpdateCellLists_lists:
  "cell_data_lists_' (UpdateCellLists pos cll) cell =
     filter (\<lambda>i. cell_of_position cll (pos ! i) = cell) [0..<length pos]"
proof -
  have "cell_of_position (cll\<lparr>cell_data_lists_' := (\<lambda>cell. [])\<rparr>) p = cell_of_position cll p" for p
    by (rule cell_of_position_cong) simp_all
  then show ?thesis
    by (simp add: UpdateCellLists_def fold_insert_into_cell_lists)
qed

lemma UpdateCellLists_idem:
  "UpdateCellLists pos (UpdateCellLists pos cll) = UpdateCellLists pos cll"
proof (rule CellLinkedList.equality)
  have same: "cell_of_position (UpdateCellLists pos cll) p = cell_of_position cll p" for p
    by (rule cell_of_position_cong) (simp_all add: UpdateCellLists_mesh)
  show "cell_data_lists_' (UpdateCellLists pos (UpdateCellLists pos cll)) =
      cell_data_lists_' (UpdateCellLists pos cll)"
    by (rule ext) (simp add: UpdateCellLists_lists same)
qed (simp_all add: UpdateCellLists_mesh)


lemma set_cell_range:
  "set (cell_range i d n) = {l. SMAX (i - d) 0 \<le> l \<and> l \<le> SMIN (i + d) (int n - 1)}"
  by (auto simp add: cell_range_def)

lemma set_searched_cells:
  "set (searched_cells d (n0, n1, n2) (ti, tj, tk)) =
     {(l, m, q). l \<in> set (cell_range (int ti) d n0) \<and> m \<in> set (cell_range (int tj) d n1) \<and>
        q \<in> set (cell_range (int tk) d n2)}"
  by (auto simp add: searched_cells_def Let_def)

lemma cell_axis_index_int:
  "int (cell_axis_index lo h n x) = SMAX 0 (SMIN \<lfloor>(x - lo) / h\<rfloor> (int n - 1))"
  by (simp add: cell_axis_index_def SMAX_def)

lemma floor_window:
  fixes a b :: real and d :: int
  assumes "\<bar>a - b\<bar> \<le> real_of_int d"
  shows "\<lfloor>b\<rfloor> \<le> \<lfloor>a\<rfloor> + d" and "\<lfloor>a\<rfloor> - d \<le> \<lfloor>b\<rfloor>"
proof -
  have "b \<le> a + real_of_int d" using assms by linarith
  then have "\<lfloor>b\<rfloor> \<le> \<lfloor>a + real_of_int d\<rfloor>" by (rule floor_mono)
  then show "\<lfloor>b\<rfloor> \<le> \<lfloor>a\<rfloor> + d" by simp
  have "a - real_of_int d \<le> b" using assms by linarith
  then have "\<lfloor>a - real_of_int d\<rfloor> \<le> \<lfloor>b\<rfloor>" by (rule floor_mono)
  then show "\<lfloor>a\<rfloor> - d \<le> \<lfloor>b\<rfloor>" by simp
qed

lemma clamp_window:
  fixes fx fy d :: int
  assumes "fy \<le> fx + d" and "fx - d \<le> fy" and "0 \<le> d" and "0 < n"
  shows "SMAX 0 (SMIN fy (int n - 1)) \<in> set (cell_range (SMAX 0 (SMIN fx (int n - 1))) d n)"
  using assms by (simp add: set_cell_range SMAX_def SMIN_def)

lemma axis_in_cell_range:
  fixes x y lo h :: real and d :: int
  assumes h: "0 < h" and n: "0 < n" and close: "\<bar>x - y\<bar> \<le> real_of_int d * h"
  shows "int (cell_axis_index lo h n y) \<in> set (cell_range (int (cell_axis_index lo h n x)) d n)"
proof -
  have "(x - lo) / h - (y - lo) / h = (x - y) / h"
    by (simp add: diff_divide_distrib)
  then have "\<bar>(x - lo) / h - (y - lo) / h\<bar> = \<bar>x - y\<bar> / h"
    using h by simp
  also have "\<dots> \<le> real_of_int d"
    using close h by (simp add: pos_divide_le_eq)
  finally have near: "\<bar>(x - lo) / h - (y - lo) / h\<bar> \<le> real_of_int d" .
  have d: "0 \<le> d"
    using near by linarith
  note w = floor_window [OF near]
  show ?thesis
    unfolding cell_axis_index_int
    by (rule clamp_window [OF w d n])
qed

lemma abs_le_vec_norm:
  "\<bar>a0\<bar> \<le> vec_norm (a0, a1, a2)" "\<bar>a1\<bar> \<le> vec_norm (a0, a1, a2)" "\<bar>a2\<bar> \<le> vec_norm (a0, a1, a2)"
proof -
  have "sqrt (a0 * a0) \<le> sqrt (a0 * a0 + a1 * a1 + a2 * a2)"
    by (rule real_sqrt_le_mono) simp
  then show "\<bar>a0\<bar> \<le> vec_norm (a0, a1, a2)" by (simp add: vec_norm_def)
  have "sqrt (a1 * a1) \<le> sqrt (a0 * a0 + a1 * a1 + a2 * a2)"
    by (rule real_sqrt_le_mono) simp
  then show "\<bar>a1\<bar> \<le> vec_norm (a0, a1, a2)" by (simp add: vec_norm_def)
  have "sqrt (a2 * a2) \<le> sqrt (a0 * a0 + a1 * a1 + a2 * a2)"
    by (rule real_sqrt_le_mono) simp
  then show "\<bar>a2\<bar> \<le> vec_norm (a0, a1, a2)" by (simp add: vec_norm_def)
qed

lemma cell_in_search_window:
  assumes h: "0 < grid_spacing_' cll"
    and cells: "number_of_cells_' cll = (n0, n1, n2)" "0 < n0" "0 < n1" "0 < n2"
    and close: "vec_norm (vec_minus p q) \<le> real_of_int d * grid_spacing_' cll"
  shows "cell_of_position cll q \<in> set (searched_cells d (number_of_cells_' cll) (CellIndexFromPosition cll p))"
proof -
  obtain p0 p1 p2 where p: "p = (p0, p1, p2)" by (cases p)
  obtain q0 q1 q2 where q: "q = (q0, q1, q2)" by (cases q)
  obtain lo0 lo1 lo2 where lo: "mesh_lower_bound_' cll = (lo0, lo1, lo2)"
    by (cases "mesh_lower_bound_' cll")
  have norm: "vec_norm (p0 - q0, p1 - q1, p2 - q2) \<le> real_of_int d * grid_spacing_' cll"
    using close by (simp add: p q vec_minus_def)
  have c0: "\<bar>p0 - q0\<bar> \<le> real_of_int d * grid_spacing_' cll"
    using abs_le_vec_norm(1) [of "p0 - q0" "p1 - q1" "p2 - q2"] norm by linarith
  have c1: "\<bar>p1 - q1\<bar> \<le> real_of_int d * grid_spacing_' cll"
    using abs_le_vec_norm(2) [of "p1 - q1" "p0 - q0" "p2 - q2"] norm by linarith
  have c2: "\<bar>p2 - q2\<bar> \<le> real_of_int d * grid_spacing_' cll"
    using abs_le_vec_norm(3) [of "p2 - q2" "p0 - q0" "p1 - q1"] norm by linarith
  show ?thesis
    using axis_in_cell_range [OF h cells(2) c0, of lo0]
      axis_in_cell_range [OF h cells(3) c1, of lo1]
      axis_in_cell_range [OF h cells(4) c2, of lo2]
    by (simp add: cell_of_position_def CellIndexFromPosition_def p q lo cells(1) set_searched_cells)
qed


lemma fold_from_reset:
  "fold (\<lambda>index_j nb'. NeighborRelationInner kern tiny pos Vol nb' pos_i index_i index_j) cs
       (nb\<lparr>current_size_' := 0\<rparr>) =
     (let vs = filter (within_cutoff kern pos pos_i) cs;
          dist = (\<lambda>index_j. vec_norm (vec_minus pos_i (pos ! index_j)))
      in nb\<lparr>j_' := splice_at 0 vs (j_' nb),
            r_ij_' := splice_at 0 (map dist vs) (r_ij_' nb),
            dW_ijV_j_' := splice_at 0 (map (\<lambda>index_j. kernel_dW kern (dist index_j) * Vol ! index_j) vs) (dW_ijV_j_' nb),
            W_ij_' := splice_at 0 (map (\<lambda>index_j. kernel_W kern (dist index_j)) vs) (W_ij_' nb),
            e_ij_' := splice_at 0 (map (\<lambda>index_j. vec_scale (1 / (dist index_j + tiny))
                        (vec_minus pos_i (pos ! index_j))) vs) (e_ij_' nb),
            current_size_' := length vs\<rparr>)"
  by (simp add: fold_NeighborRelationInner Let_def)

lemma fold_from_reset_twice:
  fixes kern tiny pos Vol pos_i index_i cs
  defines "refill \<equiv> (\<lambda>nb. fold (\<lambda>index_j nb'. NeighborRelationInner kern tiny pos Vol nb' pos_i index_i index_j) cs
       (nb\<lparr>current_size_' := 0\<rparr>))"
  shows "refill (refill nb) = refill nb"
  unfolding refill_def by (simp add: fold_from_reset Let_def splice_at_idem)

lemma neighbor_indices_from_reset:
  "neighbor_indices (fold (\<lambda>index_j nb'. NeighborRelationInner kern tiny pos Vol nb' pos_i index_i index_j) cs
       (nb\<lparr>current_size_' := 0\<rparr>)) = filter (within_cutoff kern pos pos_i) cs"
  by (simp add: fold_from_reset Let_def neighbor_indices_def splice_at_def)

lemma nth_resetNeighborhoodCurrentSize:
  "i < length cfg \<Longrightarrow> resetNeighborhoodCurrentSize cfg ! i = (cfg ! i)\<lparr>current_size_' := 0\<rparr>"
  by (simp add: resetNeighborhoodCurrentSize_def)

lemma length_resetNeighborhoodCurrentSize:
  "length (resetNeighborhoodCurrentSize cfg) = length cfg"
  by (simp add: resetNeighborhoodCurrentSize_def)

lemma rebuild_fields:
  "pos_' (rebuild kern tiny depth rel) = pos_' rel"
  "Vol_' (rebuild kern tiny depth rel) = Vol_' rel"
  "cell_linked_list_' (rebuild kern tiny depth rel) = UpdateCellLists (pos_' rel) (cell_linked_list_' rel)"
  "length (inner_configuration_' (rebuild kern tiny depth rel)) = length (inner_configuration_' rel)"
  by (simp_all add: rebuild_def updateConfiguration_def updateCellLinkedList_def
      length_searchNeighborsByParticles length_resetNeighborhoodCurrentSize)

lemma nth_rebuild:
  assumes "i < length (inner_configuration_' rel)"
  shows "inner_configuration_' (rebuild kern tiny depth rel) ! i =
     (if i < length (pos_' rel)
      then fold (\<lambda>index_j nb'. NeighborRelationInner kern tiny (pos_' rel) (Vol_' rel) nb'
                   (pos_' rel ! i) i index_j)
             (particle_candidates (UpdateCellLists (pos_' rel) (cell_linked_list_' rel)) (pos_' rel) depth i)
             ((inner_configuration_' rel ! i)\<lparr>current_size_' := 0\<rparr>)
      else (inner_configuration_' rel ! i)\<lparr>current_size_' := 0\<rparr>)"
  using assms
  by (simp add: rebuild_def updateConfiguration_def updateCellLinkedList_def
      nth_searchNeighborsByParticles length_resetNeighborhoodCurrentSize
      nth_resetNeighborhoodCurrentSize)

lemma rebuild_idem:
  "rebuild kern tiny depth (rebuild kern tiny depth rel) = rebuild kern tiny depth rel"
proof (rule InnerRelation.equality)
  let ?once = "rebuild kern tiny depth rel"
  show "inner_configuration_' (rebuild kern tiny depth ?once) = inner_configuration_' ?once"
  proof (rule nth_equalityI)
    show "length (inner_configuration_' (rebuild kern tiny depth ?once)) = length (inner_configuration_' ?once)"
      by (simp add: rebuild_fields)
  next
    fix i
    assume "i < length (inner_configuration_' (rebuild kern tiny depth ?once))"
    then have i: "i < length (inner_configuration_' rel)"
      by (simp add: rebuild_fields)
    then have i': "i < length (inner_configuration_' ?once)"
      by (simp add: rebuild_fields)
    show "inner_configuration_' (rebuild kern tiny depth ?once) ! i = inner_configuration_' ?once ! i"
      unfolding nth_rebuild [OF i'] unfolding nth_rebuild [OF i] rebuild_fields UpdateCellLists_idem
      by (simp add: fold_from_reset_twice)
  qed
qed (simp_all add: rebuild_fields UpdateCellLists_idem)

lemma set_particle_candidates:
  "set (particle_candidates (UpdateCellLists pos cll) pos depth i) =
     {j. j < length pos \<and>
         cell_of_position cll (pos ! j) \<in>
           set (searched_cells (depth i) (number_of_cells_' cll) (CellIndexFromPosition cll (pos ! i)))}"
proof -
  have same: "cell_of_position (UpdateCellLists pos cll) p = cell_of_position cll p"
    "CellIndexFromPosition (UpdateCellLists pos cll) p = CellIndexFromPosition cll p" for p
    by (rule cell_of_position_cong; simp add: UpdateCellLists_mesh)+
  show ?thesis
    by (auto simp add: particle_candidates_def UpdateCellLists_lists UpdateCellLists_mesh same)
qed

lemma set_neighbor_indices_rebuild:
  assumes "i < length (pos_' rel)" and "i < length (inner_configuration_' rel)"
  shows "set (neighbor_indices (inner_configuration_' (rebuild kern tiny depth rel) ! i)) =
     {j. j < length (pos_' rel) \<and>
         cell_of_position (cell_linked_list_' rel) (pos_' rel ! j) \<in>
           set (searched_cells (depth i) (number_of_cells_' (cell_linked_list_' rel))
                  (CellIndexFromPosition (cell_linked_list_' rel) (pos_' rel ! i))) \<and>
         within_cutoff kern (pos_' rel) (pos_' rel ! i) j}"
  using assms
  by (auto simp add: nth_rebuild neighbor_indices_from_reset set_particle_candidates)


lemma vec_norm_minus_commute: "vec_norm (vec_minus a b) = vec_norm (vec_minus b a)"
proof -
  obtain a0 a1 a2 where a: "a = (a0, a1, a2)" by (cases a)
  obtain b0 b1 b2 where b: "b = (b0, b1, b2)" by (cases b)
  have "(a0 - b0) * (a0 - b0) = (b0 - a0) * (b0 - a0)"
    "(a1 - b1) * (a1 - b1) = (b1 - a1) * (b1 - a1)"
    "(a2 - b2) * (a2 - b2) = (b2 - a2) * (b2 - a2)"
    by (simp_all add: algebra_simps)
  then show ?thesis
    by (simp add: a b vec_minus_def vec_norm_def)
qed

text \<open>
  Claim C1. After a rebuild (\<open>updateCellLists\<close> followed by \<open>updateConfiguration\<close>) of an
  inner relation with one Neighborhood per particle, a particle \<open>j\<close> whose distance from
  particle \<open>i\<close> exceeds the cutoff radius is not among the neighbor indices of \<open>i\<close>. In the
  scenario of the spec the particle at \<open>(0, 2)\<close> is in the Neighborhood of neither of the
  other two.
\<close>

theorem no_neighbor_beyond_cutoff:
  assumes "i < length (pos_' rel)"
    and "length (inner_configuration_' rel) = length (pos_' rel)"
    and "CutOffRadius kern < vec_norm (vec_minus (pos_' rel ! i) (pos_' rel ! j))"
  shows "j \<notin> set (neighbor_indices (inner_configuration_' (rebuild kern tiny depth rel) ! i))"
  using assms by (simp add: set_neighbor_indices_rebuild within_cutoff_def)

theorem no_neighbor_beyond_cutoff_witness:
  "2 \<notin> set (neighbor_indices (inner_configuration_'
       (rebuild scenario_kernel (1 / 1000) (\<lambda>index_i. 1) scenario_relation) ! 0)) \<and>
   2 \<notin> set (neighbor_indices (inner_configuration_'
       (rebuild scenario_kernel (1 / 1000) (\<lambda>index_i. 1) scenario_relation) ! 1))"
proof
  show "2 \<notin> set (neighbor_indices (inner_configuration_'
       (rebuild scenario_kernel (1 / 1000) (\<lambda>index_i. 1) scenario_relation) ! 0))"
    by (rule no_neighbor_beyond_cutoff)
       (simp_all add: scenario_relation_def scenario_kernel_def vec_minus_def vec_norm_def)
  show "2 \<notin> set (neighbor_indices (inner_configuration_'
       (rebuild scenario_kernel (1 / 1000) (\<lambda>index_i. 1) scenario_relation) ! 1))"
    by (rule no_neighbor_beyond_cutoff)
       (simp_all add: scenario_relation_def scenario_kernel_def vec_minus_def vec_norm_def)
qed

text \<open>
  Claim C2. After a rebuild, two distinct particles \<open>i\<close> and \<open>j\<close> within the cutoff radius of each
  other are in each other's Neighborhood, when the cells have positive width, every axis
  has at least one cell, and the cutoff radius is at most the search depth of either
  particle times the cell width (the configuration-time constraint of the spec).
\<close>

theorem neighbors_within_cutoff_symmetric:
  assumes "i < length (pos_' rel)" and "j < length (pos_' rel)" and "i \<noteq> j"
    and "length (inner_configuration_' rel) = length (pos_' rel)"
    and "0 < grid_spacing_' (cell_linked_list_' rel)"
    and "number_of_cells_' (cell_linked_list_' rel) = (n0, n1, n2)"
    and "0 < n0" and "0 < n1" and "0 < n2"
    and "CutOffRadius kern \<le> real_of_int (depth i) * grid_spacing_' (cell_linked_list_' rel)"
    and "CutOffRadius kern \<le> real_of_int (depth j) * grid_spacing_' (cell_linked_list_' rel)"
    and "vec_norm (vec_minus (pos_' rel ! i) (pos_' rel ! j)) \<le> CutOffRadius kern"
  shows "j \<in> set (neighbor_indices (inner_configuration_' (rebuild kern tiny depth rel) ! i)) \<and>
         i \<in> set (neighbor_indices (inner_configuration_' (rebuild kern tiny depth rel) ! j))"
proof
  have ij: "vec_norm (vec_minus (pos_' rel ! i) (pos_' rel ! j))
      \<le> real_of_int (depth i) * grid_spacing_' (cell_linked_list_' rel)"
    using assms(10,12) by linarith
  have ji: "vec_norm (vec_minus (pos_' rel ! j) (pos_' rel ! i))
      \<le> real_of_int (depth j) * grid_spacing_' (cell_linked_list_' rel)"
    using assms(11,12) by (simp add: vec_norm_minus_commute [of "pos_' rel ! j"])
  show "j \<in> set (neighbor_indices (inner_configuration_' (rebuild kern tiny depth rel) ! i))"
    using assms(1,2,4,12) cell_in_search_window [OF assms(5-9) ij]
    by (simp add: set_neighbor_indices_rebuild within_cutoff_def)
  show "i \<in> set (neighbor_indices (inner_configuration_' (rebuild kern tiny depth rel) ! j))"
    using assms(1,2,4,12) cell_in_search_window [OF assms(5-9) ji]
    by (simp add: set_neighbor_indices_rebuild within_cutoff_def
        vec_norm_minus_commute [of "pos_' rel ! j"])
qed

theorem neighbors_within_cutoff_symmetric_witness:
  "1 \<in> set (neighbor_indices (inner_configuration_'
       (rebuild scenario_kernel (1 / 1000) (\<lambda>index_i. 1) scenario_relation) ! 0)) \<and>
   0 \<in> set (neighbor_indices (inner_configuration_'
       (rebuild scenario_kernel (1 / 1000) (\<lambda>index_i. 1) scenario_relation) ! 1))"
  by (rule neighbors_within_cutoff_symmetric [where ?n0.0 = 4 and ?n1.0 = 4 and ?n2.0 = 4])
     (simp_all add: scenario_relation_def scenario_kernel_def vec_minus_def vec_norm_def)

lemma cell_range_clamped:
  assumes "l \<in> set (cell_range i d n)"
  shows "0 \<le> l \<and> l \<le> int n - 1 \<and> \<bar>l - i\<bar> \<le> d"
  using assms by (auto simp add: set_cell_range SMAX_def SMIN_def split: if_splits)

text \<open>
  Claim C3. Every cell \<open>(l, m, q)\<close> that the search scans for a particle in cell
  \<open>(ti, tj, tk)\<close> has its index on each axis inside \<open>[0, number_of_cells - 1]\<close>, and no more
  than \<open>search_depth\<close> away from the particle's own cell index on that axis: the window is
  cut at the bounds of the mesh and never continues on the opposite side.
\<close>

theorem searched_cells_clamped:
  assumes "(l, m, q) \<in> set (searched_cells search_depth (n0, n1, n2) (ti, tj, tk))"
  shows "0 \<le> l \<and> l \<le> int n0 - 1 \<and> 0 \<le> m \<and> m \<le> int n1 - 1 \<and> 0 \<le> q \<and> q \<le> int n2 - 1 \<and>
         \<bar>l - int ti\<bar> \<le> search_depth \<and> \<bar>m - int tj\<bar> \<le> search_depth \<and> \<bar>q - int tk\<bar> \<le> search_depth"
proof -
  have "l \<in> set (cell_range (int ti) search_depth n0)"
    and "m \<in> set (cell_range (int tj) search_depth n1)"
    and "q \<in> set (cell_range (int tk) search_depth n2)"
    using assms by (simp_all add: set_searched_cells)
  then show ?thesis
    using cell_range_clamped by blast
qed

theorem searched_cells_clamped_witness:
  "(1, 2, 3) \<in> set (searched_cells 1 (4, 4, 4) (0, 1, 3)) \<and>
   (0::int) \<le> 1 \<and> (1::int) \<le> int 4 - 1 \<and> (0::int) \<le> 2 \<and> (2::int) \<le> int 4 - 1 \<and>
   (0::int) \<le> 3 \<and> (3::int) \<le> int 4 - 1 \<and>
   \<bar>1 - int 0\<bar> \<le> (1::int) \<and> \<bar>2 - int 1\<bar> \<le> (1::int) \<and> \<bar>3 - int 3\<bar> \<le> (1::int)"
proof -
  have cell: "(1, 2, 3) \<in> set (searched_cells 1 (4, 4, 4) (0, 1, 3))"
    by code_simp
  show ?thesis
    using cell searched_cells_clamped [OF cell] by simp
qed

text \<open>
  Claim C4. A second rebuild without moving any particle leaves, for every particle
  \<open>i\<close>, the same set of neighbor indices as the first, and the same number of records:
  the records of the first rebuild are overwritten and do not accumulate.
\<close>

theorem rebuild_twice_same_neighbors:
  "set (neighbor_indices (inner_configuration_'
       (rebuild kern tiny depth (rebuild kern tiny depth rel)) ! i)) =
   set (neighbor_indices (inner_configuration_' (rebuild kern tiny depth rel) ! i)) \<and>
   current_size_' (inner_configuration_'
       (rebuild kern tiny depth (rebuild kern tiny depth rel)) ! i) =
   current_size_' (inner_configuration_' (rebuild kern tiny depth rel) ! i)"
  by (simp add: rebuild_idem)


section \<open>Properties of CoefficientEvolutionExplicitTem\<close>

text \<open>
  The roundings of one call of \<open>update\<close>, for the particle \<open>falling_coefficient\<close> and the
  time step \<open>dt = 1\<close>: each exact result lies between two powers of two, which fixes the
  spacing of the doubles around it, and is rounded to the nearest of them.
\<close>

lemma floor_log2_step1: "floor_log2 (233 / 100) = 1"
  by code_simp

lemma binary64_round_step1: "binary64_round (233 / 100) = Finite (1311673391471657 / 562949953421312)"
  by (simp add: binary64_round_def floor_log2_step1 pow2_def round_half_even_def Let_def)

lemma floor_log2_step2: "floor_log2 (17 / 4) = 2"
  by code_simp

lemma binary64_round_step2: "binary64_round (- (17 / 4)) = Finite (- (17 / 4))"
  by (simp add: binary64_round_def floor_log2_step2 pow2_def round_half_even_def Let_def)

lemma floor_log2_step3: "floor_log2 (1 / 100) = - 7"
  by code_simp

lemma binary64_round_step3: "binary64_round (1 / 100) = Finite (5764607523034235 / 576460752303423488)"
  by (simp add: binary64_round_def floor_log2_step3 pow2_def round_half_even_def Let_def)

lemma floor_log2_step4: "floor_log2 (5764607523034363 / 576460752303423488) = - 7"
  by code_simp

lemma binary64_round_step4: "binary64_round (5764607523034363 / 576460752303423488) = Finite (5764607523034363 / 576460752303423488)"
  by (simp add: binary64_round_def floor_log2_step4 pow2_def round_half_even_def Let_def)

lemma floor_log2_step5: "floor_log2 (1337388945343942405 / 576460752303423488) = 1"
  by code_simp

lemma binary64_round_step5: "binary64_round (- (1337388945343942405 / 576460752303423488)) = Finite (- (5224175567749775 / 2251799813685248))"
  by (simp add: binary64_round_def floor_log2_step5 pow2_def round_half_even_def Let_def)

lemma floor_log2_step6: "floor_log2 (5224175567749775 / 9570149208162304) = - 1"
  by code_simp

lemma binary64_round_step6: "binary64_round (5224175567749775 / 9570149208162304) = Finite (614608890323503 / 1125899906842624)"
  by (simp add: binary64_round_def floor_log2_step6 pow2_def round_half_even_def Let_def)

lemma floor_log2_step7: "floor_log2 (10448351135499551 / 4503599627370496) = 1"
  by code_simp

lemma binary64_round_step7: "binary64_round (- (10448351135499551 / 4503599627370496)) = Finite (- (326510972984361 / 140737488355328))"
  by (simp add: binary64_round_def floor_log2_step7 pow2_def round_half_even_def Let_def)

lemma floor_log2_step8: "floor_log2 (5629499534213 / 562949953421312) = - 7"
  by code_simp

lemma binary64_round_step8: "binary64_round (5629499534213 / 562949953421312) = Finite (5629499534213 / 562949953421312)"
  by (simp add: binary64_round_def floor_log2_step8 pow2_def round_half_even_def Let_def)

lemma machine_epsilon_value: "machine_epsilon = Finite (1 / 4503599627370496)"
  by (simp add: machine_epsilon_def pow2_def)

lemma falling_coefficient_value:
  "falling_coefficient =
     \<lparr>change_rate_' = [Finite (- (17 / 4))], eta_' = [Finite (1311673391471657 / 562949953421312)]\<rparr>"
  using binary64_round_step1 binary64_round_step2 by (simp add: falling_coefficient_def)

lemma floor_threshold_value:
  "binary64_round (1 / 100) + machine_epsilon = Finite (5764607523034363 / 576460752303423488)"
  using binary64_round_step3 binary64_round_step4
  by (simp add: plus_double_def machine_epsilon_value)

lemma falling_increment: "Finite (- (17 / 4)) * Finite 1 = Finite (- (17 / 4))"
  using binary64_round_step2 by (simp add: times_double_def)

lemma falling_numerator:
  "Finite (5764607523034363 / 576460752303423488) - Finite (1311673391471657 / 562949953421312)
     = Finite (- (5224175567749775 / 2251799813685248))"
  using binary64_round_step5 by (simp add: minus_double_def)

lemma falling_quotient:
  "Finite (- (5224175567749775 / 2251799813685248)) / Finite (- (17 / 4))
     = Finite (614608890323503 / 1125899906842624)"
  using binary64_round_step6 by (simp add: divide_double_def)

lemma falling_theta:
  "double_SMIN (Finite (614608890323503 / 1125899906842624)) (Finite 1)
     = Finite (614608890323503 / 1125899906842624)"
  by (simp add: double_SMIN_def less_eq_double_def)

lemma falling_product:
  "Finite (- (17 / 4)) * Finite (614608890323503 / 1125899906842624)
     = Finite (- (326510972984361 / 140737488355328))"
  using binary64_round_step7 by (simp add: times_double_def)

lemma falling_sum:
  "Finite (1311673391471657 / 562949953421312) + Finite (- (326510972984361 / 140737488355328))
     = Finite (5629499534213 / 562949953421312)"
  using binary64_round_step8 by (simp add: plus_double_def)

text \<open>
  Claim C8 fails for the program as it computes, in double precision. With
  \<open>eta_[0] = 2.33\<close> (at least \<open>0.01 + Eps\<close>), the change rate \<open>-4.25\<close>, \<open>dt = 1\<close> and
  \<open>Eps = 2 ^ (- 52)\<close>, the limiter \<open>theta\<close> is the rounded quotient
  \<open>(0.01 + Eps - eta_[0]) / increment\<close>, the product \<open>increment * theta\<close> is rounded again, and
  \<open>update\<close> leaves \<open>eta_[0] = 5629499534213 / 2 ^ 49\<close>, about \<open>0.0099999999999997868\<close>:
  below \<open>0.01 + Eps\<close>, and below the double \<open>0.01\<close> as well.
\<close>

theorem update_falls_below_floor:
  "binary64_round 0.01 + machine_epsilon \<le> eta_' falling_coefficient ! 0
   \<and> (0 :: double) \<le> 1
   \<and> eta_' (CoefficientEvolutionExplicitTem_update machine_epsilon 0 1 falling_coefficient)
       = [Finite (5629499534213 / 562949953421312)]
   \<and> eta_' (CoefficientEvolutionExplicitTem_update machine_epsilon 0 1 falling_coefficient) ! 0
       < binary64_round 0.01 + machine_epsilon
   \<and> eta_' (CoefficientEvolutionExplicitTem_update machine_epsilon 0 1 falling_coefficient) ! 0
       < binary64_round 0.01"
proof -
  have after: "eta_' (CoefficientEvolutionExplicitTem_update machine_epsilon 0 1 falling_coefficient)
      = [Finite (5629499534213 / 562949953421312)]"
    unfolding CoefficientEvolutionExplicitTem_update_def falling_coefficient_value Let_def
    by (simp add: one_double_def zero_double_def falling_increment less_double_def
        floor_threshold_value falling_numerator falling_quotient falling_theta falling_product
        falling_sum)
  have above: "binary64_round 0.01 + machine_epsilon \<le> eta_' falling_coefficient ! 0"
    by (simp add: floor_threshold_value falling_coefficient_value less_eq_double_def)
  have below: "Finite (5629499534213 / 562949953421312) < binary64_round 0.01 + machine_epsilon"
    by (simp add: floor_threshold_value less_double_def)
  have below_hundredth: "Finite (5629499534213 / 562949953421312) < binary64_round 0.01"
    by (simp add: binary64_round_step3 less_double_def)
  show ?thesis
    unfolding after using above below below_hundredth
    by (simp add: one_double_def zero_double_def less_eq_double_def)
qed

section \<open>Properties of ParticleSmoothing\<close>

lemma upt2: "[0..<2] = [0, 1]" by code_simp

lemma ParticleSmoothing_interaction_eq:
  "ParticleSmoothing_interaction tiny i s = s\<lparr>temp_' := (temp_' s)[i := smoothing_value tiny i s]\<rparr>"
  by (simp add: ParticleSmoothing_interaction_def smoothing_value_def Let_def split: prod.split)

lemma smoothing_value_temp:
  "smoothing_value tiny i (s\<lparr>temp_' := tmp\<rparr>) = smoothing_value tiny i s"
  by (simp add: smoothing_value_def)

lemma fold_ParticleSmoothing_interaction:
  "fold (ParticleSmoothing_interaction tiny) order s =
     s\<lparr>temp_' := fold (\<lambda>i tmp. tmp[i := smoothing_value tiny i s]) order (temp_' s)\<rparr>"
proof (induction order arbitrary: s)
  case Nil
  show ?case by simp
next
  case (Cons i order)
  let ?s = "ParticleSmoothing_interaction tiny i s"
  have "fold (ParticleSmoothing_interaction tiny) (i # order) s =
      fold (ParticleSmoothing_interaction tiny) order ?s"
    by simp
  also have "\<dots> = ?s\<lparr>temp_' := fold (\<lambda>i tmp. tmp[i := smoothing_value tiny i ?s]) order (temp_' ?s)\<rparr>"
    by (rule Cons.IH)
  also have "\<dots> = s\<lparr>temp_' := fold (\<lambda>i tmp. tmp[i := smoothing_value tiny i s]) (i # order) (temp_' s)\<rparr>"
    by (simp add: ParticleSmoothing_interaction_eq smoothing_value_temp)
  finally show ?case .
qed

lemma fold_ParticleSmoothing_update:
  "fold ParticleSmoothing_update order s =
     s\<lparr>smoothed_' := fold (\<lambda>i sm. sm[i := temp_' s ! i]) order (smoothed_' s)\<rparr>"
proof (induction order arbitrary: s)
  case Nil
  show ?case by simp
next
  case (Cons i order)
  let ?s = "ParticleSmoothing_update i s"
  have "fold ParticleSmoothing_update (i # order) s = fold ParticleSmoothing_update order ?s"
    by simp
  also have "\<dots> = ?s\<lparr>smoothed_' := fold (\<lambda>i sm. sm[i := temp_' ?s ! i]) order (smoothed_' ?s)\<rparr>"
    by (rule Cons.IH)
  also have "\<dots> = s\<lparr>smoothed_' := fold (\<lambda>i sm. sm[i := temp_' s ! i]) (i # order) (smoothed_' s)\<rparr>"
    by (simp add: ParticleSmoothing_update_def)
  finally show ?case .
qed

lemma length_fold_list_update:
  "length (fold (\<lambda>i xs. xs[i := f i]) order xs) = length xs"
  by (induction order arbitrary: xs) simp_all

lemma nth_fold_list_update:
  assumes "k < length xs"
  shows "fold (\<lambda>i xs. xs[i := f i]) order xs ! k = (if k \<in> set order then f k else xs ! k)"
  using assms
proof (induction order rule: rev_induct)
  case Nil
  show ?case by simp
next
  case (snoc i order)
  let ?ys = "fold (\<lambda>i xs. xs[i := f i]) order xs"
  have ys: "?ys ! k = (if k \<in> set order then f k else xs ! k)"
    using snoc by simp
  have "?ys[i := f i] ! k = (if k = i then f k else ?ys ! k)"
    using snoc.prems by (cases "k = i") (simp_all add: length_fold_list_update)
  then show ?case
    using ys by simp
qed

lemma fold_list_update_set_cong:
  assumes "set order = set order'"
  shows "fold (\<lambda>i xs. xs[i := f i]) order xs = fold (\<lambda>i xs. xs[i := f i]) order' xs"
proof (rule nth_equalityI)
  show "length (fold (\<lambda>i xs. xs[i := f i]) order xs) = length (fold (\<lambda>i xs. xs[i := f i]) order' xs)"
    by (simp add: length_fold_list_update)
next
  fix k
  assume "k < length (fold (\<lambda>i xs. xs[i := f i]) order xs)"
  then have "k < length xs"
    by (simp add: length_fold_list_update)
  then show "fold (\<lambda>i xs. xs[i := f i]) order xs ! k = fold (\<lambda>i xs. xs[i := f i]) order' xs ! k"
    using assms by (simp add: nth_fold_list_update)
qed

lemma ParticleSmoothing_exec_set_cong:
  assumes "set interaction_order = set interaction_order'"
    and "set update_order = set update_order'"
  shows "ParticleSmoothing_exec tiny interaction_order update_order s =
     ParticleSmoothing_exec tiny interaction_order' update_order' s"
proof -
  have phase1: "fold (ParticleSmoothing_interaction tiny) interaction_order s =
      fold (ParticleSmoothing_interaction tiny) interaction_order' s"
    unfolding fold_ParticleSmoothing_interaction
    by (simp add: fold_list_update_set_cong [OF assms(1)])
  show ?thesis
    unfolding ParticleSmoothing_exec_def phase1 fold_ParticleSmoothing_update
    by (simp add: fold_list_update_set_cong [OF assms(2)])
qed

text \<open>
  Claim C10. \<open>ParticleSmoothing\<close> does not depend on the order in which the particles are
  processed: \<open>interaction\<close> reads the smoothed field and writes the slot of its particle in
  \<open>temp_\<close>, \<open>update\<close> writes the slot of its particle in \<open>smoothed_\<close> from \<open>temp_\<close>, so for
  \<open>n\<close> particles, \<open>interaction\<close> run over any permutation of the indices followed by
  \<open>update\<close> run over any permutation gives the same state, and so the same smoothed
  field, as with any other two permutations.
\<close>

theorem ParticleSmoothing_order_independent:
  assumes "mset interaction_order = mset [0..<n]"
    and "mset interaction_order' = mset [0..<n]"
    and "mset update_order = mset [0..<n]"
    and "mset update_order' = mset [0..<n]"
    and "length (smoothed_' s) = n" and "length (temp_' s) = n"
    and "length (inner_configuration_PS s) = n"
  shows "ParticleSmoothing_exec tiny interaction_order update_order s =
     ParticleSmoothing_exec tiny interaction_order' update_order' s"
proof (rule ParticleSmoothing_exec_set_cong)
  show "set interaction_order = set interaction_order'"
    using assms(1,2) by (metis mset_eq_setD)
  show "set update_order = set update_order'"
    using assms(3,4) by (metis mset_eq_setD)
qed

theorem ParticleSmoothing_order_independent_witness:
  "ParticleSmoothing_exec (1 / 1000) [0, 1] [0, 1] pair_ParticleSmoothing =
   ParticleSmoothing_exec (1 / 1000) [1, 0] [1, 0] pair_ParticleSmoothing"
  by (rule ParticleSmoothing_order_independent [where n = 2])
     (simp_all add: upt2 pair_ParticleSmoothing_def pair_configuration_def)

section \<open>Properties of the interaction kernels\<close>

lemma fold_contact_neighbors_Some:
  assumes "\<And>n. n \<in> set ns \<Longrightarrow> r n + c \<noteq> 0"
  shows "fold (\<lambda>n force.
            case force of
              None \<Rightarrow> None
            | Some force \<Rightarrow>
                (case vec_checked_divide (v n) (r n + c) of
                   None \<Rightarrow> None
                 | Some vel_derivative \<Rightarrow> Some (g n force vel_derivative)))
          ns (Some force) \<noteq> None"
  using assms
proof (induction ns arbitrary: force)
  case Nil
  show ?case by simp
next
  case (Cons n ns)
  have "r n + c \<noteq> 0"
    using Cons.prems by simp
  then show ?case
    using Cons.IH Cons.prems by (simp add: vec_checked_divide_def)
qed

lemma ViscousForceFromFluid_contact_Some:
  assumes "0 < smoothing_length_' s ! k"
    and "\<And>n. n < current_size_' (contact_configuration_' s ! k ! index_i) \<Longrightarrow>
          0 \<le> r_ij_' (contact_configuration_' s ! k ! index_i) ! n"
  shows "ViscousForceFromFluid_contact index_i s k (Some force) \<noteq> None"
proof -
  have "r_ij_' (contact_configuration_' s ! k ! index_i) ! n + 0.01 * smoothing_length_' s ! k \<noteq> 0"
    if "n \<in> set [0..<current_size_' (contact_configuration_' s ! k ! index_i)]" for n
  proof -
    have "0 \<le> r_ij_' (contact_configuration_' s ! k ! index_i) ! n"
      using that assms(2) by simp
    then show ?thesis
      using assms(1) by simp
  qed
  then show ?thesis
    unfolding ViscousForceFromFluid_contact_def Let_def
    by (rule fold_contact_neighbors_Some)
qed

lemma fold_contact_bodies_Some:
  assumes "\<And>k force. k \<in> set ks \<Longrightarrow> step k (Some force) \<noteq> None"
  shows "fold step ks (Some (force :: Vecd)) \<noteq> (None :: Vecd option)"
  using assms
proof (induction ks arbitrary: force)
  case Nil
  show ?case by simp
next
  case (Cons k ks)
  obtain force' where "step k (Some force) = Some force'"
    using Cons.prems [of k force] by auto
  then show ?case
    using Cons.IH Cons.prems by simp
qed

text \<open>
  Claim C5, as amended. The division by the inter-particle distance in
  \<open>ViscousForceFromFluid::interaction\<close> has the term \<open>0.01 * smoothing_length\<close> added to
  the denominator: when the smoothing lengths are positive and the recorded distances are
  not negative, no denominator is zero and the kernel returns a state, also for
  coincident particles (distance zero).
\<close>

theorem ViscousForceFromFluid_division_guarded:
  assumes "\<And>k. k < length (contact_configuration_' s) \<Longrightarrow> 0 < smoothing_length_' s ! k"
    and "\<And>k n. k < length (contact_configuration_' s) \<Longrightarrow>
          n < current_size_' (contact_configuration_' s ! k ! index_i) \<Longrightarrow>
          0 \<le> r_ij_' (contact_configuration_' s ! k ! index_i) ! n"
  shows "ViscousForceFromFluid_interaction index_i dt s \<noteq> None"
proof -
  have "fold (ViscousForceFromFluid_contact index_i s)
      [0..<length (contact_configuration_' s)] (Some vec_zero) \<noteq> None"
    by (rule fold_contact_bodies_Some) (simp add: ViscousForceFromFluid_contact_Some assms)
  then show ?thesis
    by (auto simp add: ViscousForceFromFluid_interaction_def split: option.splits)
qed

theorem ViscousForceFromFluid_division_guarded_witness:
  "r_ij_' (contact_configuration_' coincident_ViscousForceFromFluid ! 0 ! 0) ! 0 = 0 \<and>
   ViscousForceFromFluid_interaction 0 0 coincident_ViscousForceFromFluid \<noteq> None"
proof
  show "r_ij_' (contact_configuration_' coincident_ViscousForceFromFluid ! 0 ! 0) ! 0 = 0"
    by (simp add: coincident_ViscousForceFromFluid_def coincident_neighborhood_def)
  show "ViscousForceFromFluid_interaction 0 0 coincident_ViscousForceFromFluid \<noteq> None"
    by (rule ViscousForceFromFluid_division_guarded)
       (simp_all add: coincident_ViscousForceFromFluid_def coincident_neighborhood_def)
qed

text \<open>
  Claim C5 as stated fails: \<open>LaplacianInner::loopNeighbors\<close> divides by \<open>r_ij_[n]\<close> with
  nothing added, and for two coincident particles the denominator is zero.
\<close>

theorem LaplacianInner_divides_by_zero:
  "r_ij_' (inner_configuration_Lap coincident_LaplacianInner ! 0) ! 0 = 0 \<and>
   LaplacianInner_loopNeighbors 0 (\<lambda>index_i index_j. 1) coincident_LaplacianInner = None"
  by (simp add: LaplacianInner_loopNeighbors_def coincident_LaplacianInner_def
      coincident_neighborhood_def checked_divide_def)

section \<open>The kernels leave the Neighborhood tables as they are\<close>

text \<open>
  No method of a kernel assigns to a Neighborhood: each writes arrays of the particles
  only, whether the Neighborhood is taken by a \<open>const\<close> reference or not. So every call
  returns the tables it was handed, and so does every sequence of calls.
\<close>

lemma fold_keeps:
  assumes "\<And>x s. g (f x s) = g s"
  shows "g (fold f xs s) = g s"
  using assms by (induction xs arbitrary: s) simp_all

lemma write_Real_inner [simp]: "inner_configuration_DD (write_Real name index_i v d) = inner_configuration_DD d"
  by (simp add: write_Real_def)

lemma write_Real_contact [simp]: "contact_configuration_DD (write_Real name index_i v d) = contact_configuration_DD d"
  by (simp add: write_Real_def)

lemma write_Vecd_inner [simp]: "inner_configuration_DD (write_Vecd name index_i v d) = inner_configuration_DD d"
  by (simp add: write_Vecd_def)

lemma write_Vecd_contact [simp]: "contact_configuration_DD (write_Vecd name index_i v d) = contact_configuration_DD d"
  by (simp add: write_Vecd_def)

lemma tables_write_Real [simp]: "tables (write_Real name index_i v d) = tables d"
  by (simp add: tables_def)

lemma tables_write_Vecd [simp]: "tables (write_Vecd name index_i v d) = tables d"
  by (simp add: tables_def)

lemma FreeSurfaceIndicationInner_tables:
  "tables (FreeSurfaceIndicationInner_interaction index_i dt d) = tables d"
  by (simp add: FreeSurfaceIndicationInner_interaction_def Let_def)

lemma ColorFunctionGradientInner_tables:
  "tables (ColorFunctionGradientInner_interaction TinyReal threshold index_i dt d) = tables d"
  by (simp add: ColorFunctionGradientInner_interaction_def Let_def)

lemma ColorFunctionGradientInterpolationInner_tables:
  "tables (ColorFunctionGradientInterpolationInner_interaction TinyReal threshold index_i dt d) = tables d"
  by (simp add: ColorFunctionGradientInterpolationInner_interaction_def Let_def split: prod.splits)

lemma SurfaceTensionAccelerationInner_tables:
  "tables (SurfaceTensionAccelerationInner_interaction TinyReal gamma index_i dt d) = tables d"
  by (simp add: SurfaceTensionAccelerationInner_interaction_def Let_def split: prod.splits)

lemma checkNearPreviousFreeSurface_tables:
  "tables (checkNearPreviousFreeSurface threshold index_i d) = tables d"
  by (simp add: checkNearPreviousFreeSurface_def Let_def)

lemma SpatialTemporalFreeSurfaceIdentification_tables:
  "tables (SpatialTemporalFreeSurfaceIdentification_interaction threshold index_i dt d) = tables d"
  by (simp add: SpatialTemporalFreeSurfaceIdentification_interaction_def Let_def
      checkNearPreviousFreeSurface_tables FreeSurfaceIndicationInner_tables)

lemma DensitySummationFreeStream_tables:
  "tables (DensitySummationFreeStream_update ReinitializedDensity rho0 index_i dt d) = tables d"
  by (simp add: DensitySummationFreeStream_update_def)

lemma ViscousForceFromFluid_tables:
  "tables (ViscousForceFromFluid_interaction_DD mu smoothing_length index_i dt d) = tables d"
  by (simp add: ViscousForceFromFluid_interaction_DD_def Let_def)

lemma CoefficientEvolutionExplicitTem_interaction_tables:
  "tables (CoefficientEvolutionExplicitTem_interaction index_i dt d) = tables d"
  by (simp add: CoefficientEvolutionExplicitTem_interaction_def Let_def)

lemma CoefficientEvolutionExplicitTem_update_tables:
  "tables (CoefficientEvolutionExplicitTem_update_DD eps index_i dt d) = tables d"
  by (simp add: CoefficientEvolutionExplicitTem_update_DD_def Let_def tables_def)

lemma CoefficientEvolutionWithWallExplicitTem_tables:
  "tables (CoefficientEvolutionWithWallExplicitTem_interaction variable_name index_i dt d) = tables d"
  by (simp add: CoefficientEvolutionWithWallExplicitTem_interaction_def Let_def
      CoefficientEvolutionExplicitTem_interaction_tables)

lemma updateStatesByError_tables:
  "tables (CoefficientEvolutionImplicit_updateStatesByError TinyReal variable_name index_i dt ep d) = tables d"
  unfolding CoefficientEvolutionImplicit_updateStatesByError_def Let_def
  by (subst fold_keeps [where g = tables]) simp_all

lemma CoefficientEvolutionImplicit_tables:
  "tables (CoefficientEvolutionImplicit_interaction TinyReal variable_name index_i dt d) = tables d"
  by (simp add: CoefficientEvolutionImplicit_interaction_def updateStatesByError_tables)

lemma CoefficientEvolutionWithWallImplicit_tables:
  "tables (CoefficientEvolutionWithWallImplicit_interaction TinyReal variable_name index_i dt d) = tables d"
  by (simp add: CoefficientEvolutionWithWallImplicit_interaction_def updateStatesByError_tables)

lemma ParticleSmoothing_Real_interaction_tables:
  "tables (ParticleSmoothing_Real_interaction TinyReal W0 variable_name index_i dt d) = tables d"
  by (simp add: ParticleSmoothing_Real_interaction_def Let_def split: prod.splits)

lemma ParticleSmoothing_Real_update_tables:
  "tables (ParticleSmoothing_Real_update variable_name index_i dt d) = tables d"
  by (simp add: ParticleSmoothing_Real_update_def)

lemma ParticleSmoothing_Vecd_interaction_tables:
  "tables (ParticleSmoothing_Vecd_interaction TinyReal W0 variable_name index_i dt d) = tables d"
  by (simp add: ParticleSmoothing_Vecd_interaction_def Let_def split: prod.splits)

lemma ParticleSmoothing_Vecd_update_tables:
  "tables (ParticleSmoothing_Vecd_update variable_name index_i dt d) = tables d"
  by (simp add: ParticleSmoothing_Vecd_update_def)

lemma LaplacianInner_tables:
  "tables (LaplacianInner_loopNeighbors_DD in_name out_name coefficient index_i d) = tables d"
  by (simp add: LaplacianInner_loopNeighbors_DD_def Let_def)

lemma LaplacianContact_tables:
  "tables (LaplacianContact_loopNeighbors in_name out_name coefficient index_i d) = tables d"
  unfolding LaplacianContact_loopNeighbors_def
  by (subst fold_keeps [where g = "\<lambda>p. tables (snd p)"]) (simp_all add: Let_def split: prod.splits)

lemmas kernel_tables =
  FreeSurfaceIndicationInner_tables ColorFunctionGradientInner_tables
  ColorFunctionGradientInterpolationInner_tables SurfaceTensionAccelerationInner_tables
  SpatialTemporalFreeSurfaceIdentification_tables DensitySummationFreeStream_tables
  ViscousForceFromFluid_tables CoefficientEvolutionExplicitTem_interaction_tables
  CoefficientEvolutionExplicitTem_update_tables CoefficientEvolutionWithWallExplicitTem_tables
  CoefficientEvolutionImplicit_tables CoefficientEvolutionWithWallImplicit_tables
  ParticleSmoothing_Real_interaction_tables ParticleSmoothing_Real_update_tables
  ParticleSmoothing_Vecd_interaction_tables ParticleSmoothing_Vecd_update_tables
  LaplacianInner_tables LaplacianContact_tables

lemma run_kernel_call_tables: "tables (run_kernel_call call d) = tables d"
  by (cases call) (simp_all add: kernel_tables)

lemma run_kernel_calls_tables: "tables (fold run_kernel_call calls d) = tables d"
  by (rule fold_keeps) (rule run_kernel_call_tables)

text \<open>
  The roundings of one pass of \<open>ParticleSmoothing\<close> over the positions of \<open>pair_data\<close>, and
  of \<open>LaplacianInner::loopNeighbors\<close> on \<open>coincident_data\<close>.
\<close>

lemma floor_log2_half: "floor_log2 (1 / 2) = - 1"
  by code_simp

lemma binary64_round_half: "binary64_round (1 / 2) = Finite (1 / 2)"
  by (simp add: binary64_round_def floor_log2_half pow2_def round_half_even_def Let_def)

lemma floor_log2_quarter: "floor_log2 (1 / 4) = - 2"
  by code_simp

lemma binary64_round_quarter: "binary64_round (1 / 4) = Finite (1 / 4)"
  by (simp add: binary64_round_def floor_log2_quarter pow2_def round_half_even_def Let_def)

lemma floor_log2_weight: "floor_log2 (3 / 2) = 0"
  by code_simp

lemma binary64_round_weight: "binary64_round (3 / 2) = Finite (3 / 2)"
  by (simp add: binary64_round_def floor_log2_weight pow2_def round_half_even_def Let_def)

lemma floor_log2_weight_tiny: "floor_log2 (55340232221128654849 / 36893488147419103232) = 0"
  by code_simp

lemma binary64_round_weight_tiny: "binary64_round (55340232221128654849 / 36893488147419103232) = Finite (3 / 2)"
  by (simp add: binary64_round_def floor_log2_weight_tiny pow2_def round_half_even_def Let_def)

lemma floor_log2_sixth: "floor_log2 (1 / 6) = - 3"
  by code_simp

lemma binary64_round_sixth: "binary64_round (1 / 6) = Finite (6004799503160661 / 36028797018963968)"
  by (simp add: binary64_round_def floor_log2_sixth pow2_def round_half_even_def Let_def)

lemma floor_log2_third: "floor_log2 (1 / 3) = - 2"
  by code_simp

lemma binary64_round_third: "binary64_round (1 / 3) = Finite (6004799503160661 / 18014398509481984)"
  by (simp add: binary64_round_def floor_log2_third pow2_def round_half_even_def Let_def)

lemma binary64_round_zero: "binary64_round 0 = Finite 0"
  by (simp add: binary64_round_def)

lemmas smoothing_arithmetic =
  zero_double_def one_double_def plus_double_def times_double_def divide_double_def
  binary64_round_zero binary64_round_half binary64_round_quarter binary64_round_weight
  binary64_round_weight_tiny binary64_round_sixth binary64_round_third
  double_Vecd_plus_def double_Vecd_scale_def double_Vecd_divide_def table_Real_def pow2_def

lemma smooth_positions_result:
  "particles_Vecd (fold run_kernel_call smooth_positions pair_data) ''Position'' =
     [(Finite (6004799503160661 / 36028797018963968), Finite 0, Finite 0),
      (Finite (6004799503160661 / 18014398509481984), Finite 0, Finite 0)]"
  by (simp add: smooth_positions_def pair_data_def pair_configuration_def
      ParticleSmoothing_Vecd_interaction_def ParticleSmoothing_Vecd_update_def write_Vecd_def
      Let_def smoothing_arithmetic)

lemma floor_log2_one: "floor_log2 1 = 0"
  by code_simp

lemma binary64_round_one: "binary64_round 1 = Finite 1"
  by (simp add: binary64_round_def floor_log2_one pow2_def round_half_even_def Let_def)

lemma floor_log2_two: "floor_log2 2 = 1"
  by code_simp

lemma binary64_round_two: "binary64_round 2 = Finite 2"
  by (simp add: binary64_round_def floor_log2_two pow2_def round_half_even_def Let_def)

lemma binary64_round_minus_one: "binary64_round (- 1) = Finite (- 1)"
  by (simp add: binary64_round_def floor_log2_one pow2_def round_half_even_def Let_def)

lemma binary64_round_minus_two: "binary64_round (- 2) = Finite (- 2)"
  by (simp add: binary64_round_def floor_log2_two pow2_def round_half_even_def Let_def)

lemma coincident_laplacian_result:
  "particles_Real (fold run_kernel_call coincident_laplacian coincident_data) residue_name =
     [NonFinite, Finite 0]"
  by (simp add: coincident_laplacian_def coincident_data_def coincident_neighborhood_def
      LaplacianInner_loopNeighbors_DD_def write_Real_def residue_name_def Let_def table_Real_def
      zero_double_def one_double_def plus_double_def minus_double_def times_double_def
      divide_double_def binary64_round_zero binary64_round_one binary64_round_two
      binary64_round_minus_one binary64_round_minus_two)

text \<open>
  Claim C7. Between one \<open>updateConfiguration\<close> and the next no kernel modifies the
  Neighborhood tables. For every sequence of calls of the kernels (every method under the
  sources that loops over a Neighborhood, for any particles, constants and time steps),
  run on data whose inner table is the one \<open>updateConfiguration\<close> returned, the table
  after the calls is the table that \<open>updateConfiguration\<close> returned; and on any data
  whatever, the inner table and the contact tables after the calls are those before
  them, whatever the calls write to the arrays of the particles (the positions among
  them) and whatever their quotients are.
\<close>

theorem kernels_leave_configuration_unchanged:
  "inner_configuration_DD
     (fold run_kernel_call calls
        (on_relation (updateConfiguration kern TinyReal get_search_depth rel) d)) =
     inner_configuration_' (updateConfiguration kern TinyReal get_search_depth rel)
   \<and> inner_configuration_DD (fold run_kernel_call calls d) = inner_configuration_DD d
   \<and> contact_configuration_DD (fold run_kernel_call calls d) = contact_configuration_DD d"
  using run_kernel_calls_tables [of calls d]
    run_kernel_calls_tables [of calls "on_relation (updateConfiguration kern TinyReal get_search_depth rel) d"]
  by (simp add: tables_def on_relation_def)

text \<open>
  Three instances. One pass of \<open>ParticleSmoothing\<close> over the positions moves the two
  particles of \<open>pair_data\<close> from a distance of \<open>1/2\<close> to a distance of about \<open>1/6\<close>, and the
  table still is \<open>pair_configuration\<close>, with the distance \<open>1/2\<close> recorded at the rebuild. And
  \<open>LaplacianInner::loopNeighbors\<close> for a particle with a coincident neighbor divides by
  zero, stores a value that is not a number, and returns the table unchanged. And after
  calls of three kernels on the scenario of the spec, the table is the one that the
  rebuild returned.
\<close>

theorem kernels_leave_configuration_unchanged_witness:
  "particles_Vecd pair_data ''Position'' = [(Finite 0, Finite 0, Finite 0), (Finite (1 / 2), Finite 0, Finite 0)]
   \<and> particles_Vecd (fold run_kernel_call smooth_positions pair_data) ''Position'' =
       [(Finite (6004799503160661 / 36028797018963968), Finite 0, Finite 0),
        (Finite (6004799503160661 / 18014398509481984), Finite 0, Finite 0)]
   \<and> inner_configuration_DD (fold run_kernel_call smooth_positions pair_data) = pair_configuration
   \<and> r_ij_' (inner_configuration_DD (fold run_kernel_call smooth_positions pair_data) ! 0) ! 0 = 1 / 2
   \<and> particles_Real (fold run_kernel_call coincident_laplacian coincident_data) residue_name ! 0 = NonFinite
   \<and> inner_configuration_DD (fold run_kernel_call coincident_laplacian coincident_data) =
       [coincident_neighborhood, coincident_neighborhood]
   \<and> inner_configuration_DD (fold run_kernel_call scenario_calls scenario_data) =
       inner_configuration_' (rebuild scenario_kernel (1 / 1000) (\<lambda>index_i. 1) scenario_relation)"
proof -
  have moved: "inner_configuration_DD (fold run_kernel_call smooth_positions pair_data) = pair_configuration"
    using kernels_leave_configuration_unchanged [where calls = smooth_positions and d = pair_data]
    by (simp add: pair_data_def)
  have divided: "inner_configuration_DD (fold run_kernel_call coincident_laplacian coincident_data) =
      [coincident_neighborhood, coincident_neighborhood]"
    using kernels_leave_configuration_unchanged [where calls = coincident_laplacian and d = coincident_data]
    by (simp add: coincident_data_def)
  have rebuilt: "inner_configuration_DD (fold run_kernel_call scenario_calls scenario_data) =
      inner_configuration_' (rebuild scenario_kernel (1 / 1000) (\<lambda>index_i. 1) scenario_relation)"
    unfolding scenario_data_def rebuild_def
    using kernels_leave_configuration_unchanged
      [where calls = scenario_calls and kern = scenario_kernel and TinyReal = "1 / 1000"
        and get_search_depth = "\<lambda>index_i. 1" and rel = "updateCellLinkedList scenario_relation"]
    by blast
  have before: "particles_Vecd pair_data ''Position'' =
      [(Finite 0, Finite 0, Finite 0), (Finite (1 / 2), Finite 0, Finite 0)]"
    by (simp add: pair_data_def zero_double_def binary64_round_half)
  show ?thesis
    unfolding moved divided rebuilt smooth_positions_result coincident_laplacian_result before
    by (simp add: pair_configuration_def)
qed

section \<open>Properties of the drivers\<close>

lemma monitor_run_append:
  "monitor_run phase (xs @ ys) =
     (case monitor_run phase xs of None \<Rightarrow> None | Some phase' \<Rightarrow> monitor_run phase' ys)"
  by (induction xs arbitrary: phase) (simp_all split: option.splits)

lemma monitor_run_relaxation_pass: "monitor_run Ready (relaxation_pass ite_p) = Some Ready"
  by (simp add: relaxation_pass_def)

lemma monitor_run_acoustic_passes:
  "monitor_run Ready (concat (replicate n acoustic_pass)) = Some Ready"
  by (induction n) (simp_all add: monitor_run_append acoustic_pass_def)

lemma monitor_run_integration_pass: "monitor_run Ready (integration_pass n) = Some Ready"
  by (simp add: integration_pass_def monitor_run_append monitor_run_acoustic_passes)

lemma rebuild_calls_acoustic_passes:
  "filter acts_on_configuration (concat (replicate n acoustic_pass)) = []"
  by (induction n) (simp_all add: acoustic_pass_def)

lemma monitor_run_passes:
  assumes "\<And>x. monitor_run Ready (pass x) = Some Ready"
  shows "monitor_run Ready (concat (map pass xs)) = Some Ready"
  by (induction xs) (simp_all add: monitor_run_append assms)

text \<open>
  Claim C6. In both drivers with periodic conditions, every pass of the time loop calls
  the periodic bounding, then the rebuild of the cell linked lists (followed by the
  periodic update of the lists), then the rebuild of the configurations, and over a whole
  run of the relaxation loop, and of the main loop of the flow driver with any numbers of
  passes of its inner loops, no dynamics that reads Neighborhoods is called between a
  bounding and the rebuild of the configurations that follows it.
\<close>

theorem drivers_rebuild_in_order:
  "rebuild_calls (relaxation_pass ite_p) =
     [bounding xAxis, bounding yAxis, updateCellLinkedList_call,
      update_cell_linked_list xAxis, update_cell_linked_list yAxis, updateConfiguration_call] \<and>
   rebuild_calls (integration_pass inner_ite_dt) =
     [bounding xAxis, bounding yAxis, updateCellLinkedList_call,
      update_cell_linked_list xAxis, update_cell_linked_list yAxis, updateConfiguration_call] \<and>
   monitor_run Ready relaxation_loop = Some Ready \<and>
   monitor_run Ready (main_loop runs) = Some Ready"
proof (intro conjI)
  show "rebuild_calls (relaxation_pass ite_p) =
     [bounding xAxis, bounding yAxis, updateCellLinkedList_call,
      update_cell_linked_list xAxis, update_cell_linked_list yAxis, updateConfiguration_call]"
    by (simp add: rebuild_calls_def relaxation_pass_def)
  show "rebuild_calls (integration_pass inner_ite_dt) =
     [bounding xAxis, bounding yAxis, updateCellLinkedList_call,
      update_cell_linked_list xAxis, update_cell_linked_list yAxis, updateConfiguration_call]"
    by (simp add: rebuild_calls_def integration_pass_def rebuild_calls_acoustic_passes)
  show "monitor_run Ready relaxation_loop = Some Ready"
    unfolding relaxation_loop_def
    by (rule monitor_run_passes) (rule monitor_run_relaxation_pass)
  have "monitor_run Ready (integration_loop passes) = Some Ready" for passes
    unfolding integration_loop_def
    by (rule monitor_run_passes) (rule monitor_run_integration_pass)
  then have "monitor_run Ready (integration_loop passes @ output_section) = Some Ready" for passes
    by (simp add: monitor_run_append output_section_def)
  then show "monitor_run Ready (main_loop runs) = Some Ready"
    unfolding main_loop_def by (rule monitor_run_passes)
qed

section \<open>Properties of HardeningPlasticSolid\<close>

lemma upt3: "[0..<3] = [0, 1, 2]" by code_simp

lemma hardening_parameter_PlasticConstitutiveRelation:
  "hardening_parameter_' (snd (PlasticConstitutiveRelation DK VK F index_i dt s)) =
     (hardening_parameter_' s)[index_i :=
        (if trial_function DK F index_i s > 0
         then hardening_parameter_' s ! index_i +
              sqrt_2_over_3_' * (0.5 * trial_function DK F index_i s /
                (renormalized_shear_modulus F index_i s + hardening_modulus_' s / 3))
         else hardening_parameter_' s ! index_i)]"
  by (simp add: PlasticConstitutiveRelation_def trial_function_def renormalized_shear_modulus_def
      trial_normalized_be_isentropic_def Let_def split: prod.split)

text \<open>
  Claim C9, as amended. \<open>HardeningPlasticSolid::PlasticConstitutiveRelation\<close> does not
  decrease the hardening parameter of its particle when the denominator of the relax
  increment, the renormalized (trial) shear modulus plus a third of the hardening modulus,
  is positive; so in particular for a positive trial shear modulus and a hardening
  modulus that is not negative.
\<close>

theorem hardening_parameter_never_decreases:
  assumes "index_i < length (hardening_parameter_' s)"
    and "0 < renormalized_shear_modulus F index_i s + hardening_modulus_' s / 3"
  shows "hardening_parameter_' s ! index_i \<le>
     hardening_parameter_' (snd (PlasticConstitutiveRelation DK VK F index_i dt s)) ! index_i"
proof (cases "trial_function DK F index_i s > 0")
  case True
  have "0 \<le> sqrt_2_over_3_'"
    by (simp add: sqrt_2_over_3_'_def)
  moreover have "0 \<le> 0.5 * trial_function DK F index_i s /
      (renormalized_shear_modulus F index_i s + hardening_modulus_' s / 3)"
    using True assms(2) by simp
  ultimately have "0 \<le> sqrt_2_over_3_' * (0.5 * trial_function DK F index_i s /
      (renormalized_shear_modulus F index_i s + hardening_modulus_' s / 3))"
    by (rule mult_nonneg_nonneg)
  then show ?thesis
    using True assms(1) by (simp add: hardening_parameter_PlasticConstitutiveRelation)
next
  case False
  then show ?thesis
    using assms(1) by (simp add: hardening_parameter_PlasticConstitutiveRelation)
qed

lemmas mat_eval = mat_mul_def mat_transpose_def mat_of_def Dimensions_def upt3 mat_determinant_def
  mat_cofactor_def mat_scale_def mat_trace_def OneOverDimensions_def mat_sub_def mat_identity_def

lemma shear_isentropic:
  "trial_normalized_be_isentropic simple_shear 0 hardening_solid = 4 / 3"
  "trial_normalized_be_isentropic simple_shear 0 softening_solid = 4 / 3"
  by (simp_all add: trial_normalized_be_isentropic_def simple_shear_def hardening_solid_def
      softening_solid_def mat_eval)

lemma shear_trial_function:
  "trial_function (mat_scale 1) simple_shear 0 softening_solid = sqrt (8 / 3) - sqrt (2 / 3)"
  by (simp add: trial_function_def simple_shear_def softening_solid_def mat_eval mat_norm_def
      sqrt_2_over_3_'_def)


theorem hardening_parameter_never_decreases_witness:
  "hardening_parameter_' hardening_solid ! 0 \<le>
     hardening_parameter_' (snd (PlasticConstitutiveRelation (mat_scale 1) (\<lambda>J. (J * J - 1) / 2)
        simple_shear 0 0 hardening_solid)) ! 0"
proof (rule hardening_parameter_never_decreases)
  show "0 < length (hardening_parameter_' hardening_solid)"
    by (simp add: hardening_solid_def)
  show "0 < renormalized_shear_modulus simple_shear 0 hardening_solid +
      hardening_modulus_' hardening_solid / 3"
    by (simp add: renormalized_shear_modulus_def shear_isentropic) (simp add: hardening_solid_def)
qed

text \<open>
  Claim C9 as stated fails for a material with a negative hardening modulus: the trial
  shear modulus of the sheared example is positive, the trial yield function is
  positive, and the call lowers the hardening parameter from 0 to \<open>-1/2\<close>.
\<close>

theorem softening_decreases_hardening_parameter:
  "0 < renormalized_shear_modulus simple_shear 0 softening_solid \<and>
   hardening_parameter_' (snd (PlasticConstitutiveRelation (mat_scale 1) (\<lambda>J. (J * J - 1) / 2)
        simple_shear 0 0 softening_solid)) ! 0
     < hardening_parameter_' softening_solid ! 0"
proof
  have G0: "G0_' softening_solid = 1" and H: "hardening_modulus_' softening_solid = - 6"
    and hp: "hardening_parameter_' softening_solid = [0]"
    by (simp_all add: softening_solid_def)
  show rsm: "0 < renormalized_shear_modulus simple_shear 0 softening_solid"
    by (simp add: renormalized_shear_modulus_def shear_isentropic G0)
  have trial: "0 < sqrt (8 / 3) - sqrt (2 / 3)"
    by simp
  have "sqrt_2_over_3_' * (0.5 * (sqrt (8 / 3) - sqrt (2 / 3)) / (4 / 3 * 1 + - 6 / 3)) < 0"
  proof -
    have "0 < sqrt_2_over_3_'"
      by (simp add: sqrt_2_over_3_'_def)
    moreover have "0.5 * (sqrt (8 / 3) - sqrt (2 / 3)) / (4 / 3 * 1 + - 6 / 3) < 0"
      using trial by (simp add: divide_neg_pos)
    ultimately show ?thesis
      by (rule mult_pos_neg)
  qed
  then show "hardening_parameter_' (snd (PlasticConstitutiveRelation (mat_scale 1) (\<lambda>J. (J * J - 1) / 2)
        simple_shear 0 0 softening_solid)) ! 0
     < hardening_parameter_' softening_solid ! 0"
    using trial
    by (simp add: hardening_parameter_PlasticConstitutiveRelation shear_trial_function
        renormalized_shear_modulus_def shear_isentropic G0 H hp)
qed

end
